theory Spec2Isabelle
  imports Complex_Main "HOL-Library.Product_Lexorder"
begin

section \<open>Strings and dates\<close>

text \<open>
  A Python \<open>str\<close> is a sequence of Unicode code points, so a string is a list of natural
  numbers; \<open>len\<close> is \<open>length\<close> and the regular expressions of the source count code
  points. ASCII literals are written with \<open>u\<close>; the Chinese literals of the source are
  spelled out as code points, each with its name in the source beside it.

  A \<open>datetime.date\<close> is its proleptic Gregorian ordinal: comparison, \<open>min\<close>, \<open>max\<close>
  and \<open>(a - b).days\<close> of the source are those of the integers. A date object is always
  truthy, so \<open>if d\<close> on an optional date only tests for \<open>None\<close>.
\<close>

type_synonym ustr = "nat list"
type_synonym date = int

definition u :: "string \<Rightarrow> ustr" where
  "u s = map of_char s"

text \<open>\<open>a or b\<close> on strings: the first operand unless it is empty.\<close>

definition str_or :: "ustr \<Rightarrow> ustr \<Rightarrow> ustr" where
  "str_or a b = (if a \<noteq> [] then a else b)"

text \<open>The characters for which \<open>str.isspace\<close> holds; \<open>str.strip()\<close> removes them at both ends.\<close>

definition is_space :: "nat \<Rightarrow> bool" where
  "is_space c \<longleftrightarrow>
     (9 \<le> c \<and> c \<le> 13) \<or> (28 \<le> c \<and> c \<le> 32) \<or> c = 133 \<or> c = 160 \<or> c = 5760 \<or>
     (8192 \<le> c \<and> c \<le> 8202) \<or> c = 8232 \<or> c = 8233 \<or> c = 8239 \<or> c = 8287 \<or> c = 12288"

definition strip :: "ustr \<Rightarrow> ustr" where
  "strip s = rev (dropWhile is_space (rev (dropWhile is_space s)))"

text \<open>\<open>sorted(set(xs))\<close>.\<close>

definition sorted_set :: "'a::linorder list \<Rightarrow> 'a list" where
  "sorted_set xs = sort (remdups xs)"

text \<open>\<open>needle in hay\<close> on strings.\<close>

fun is_prefix :: "ustr \<Rightarrow> ustr \<Rightarrow> bool" where
  "is_prefix [] ys = True"
| "is_prefix (x # xs) [] = False"
| "is_prefix (x # xs) (y # ys) = (x = y \<and> is_prefix xs ys)"

fun contains :: "ustr \<Rightarrow> ustr \<Rightarrow> bool" where
  "contains hay needle =
     (is_prefix needle hay \<or> (case hay of [] \<Rightarrow> False | _ # rest \<Rightarrow> contains rest needle))"

definition ch_review :: ustr where "ch_review = [35780, 20215]"
definition ch_order :: ustr where "ch_order = [20132, 26131]"
definition ch_logistics :: ustr where "ch_logistics = [29289, 27969]"
definition ch_base :: ustr where "ch_base = [22522, 30784]"
definition kind_procedural :: ustr where "kind_procedural = [31243, 24207, 25991, 20214]"
definition kw_contract :: ustr where "kw_contract = [21512, 21516]"

text \<open>
  \<open>ch_review\<close>, \<open>ch_order\<close>, \<open>ch_logistics\<close>, \<open>ch_base\<close> are the channel names
  U+8BC4 U+4EF7, U+4EA4 U+6613, U+7269 U+6D41 and U+57FA U+7840 of the source (review, order,
  logistics, base); \<open>kind_procedural\<close> is the document type U+7A0B U+5E8F U+6587 U+4EF6
  (procedural file), \<open>kw_contract\<close> is U+5408 U+540C (contract); \<open>ch_order\<close> doubles as the
  type keyword "trade".
\<close>

subsection \<open>Exceptions\<close>

text \<open>
  A computation that may raise returns a sum: \<open>Inl\<close> with the exception, or \<open>Inr\<close> with its
  value. \<open>and_then m f\<close> runs \<open>f\<close> on the value of \<open>m\<close> and passes an exception on.
\<close>

datatype py_error = TypeError | OverflowError | ZeroDivisionError

definition and_then :: "py_error + 'a \<Rightarrow> ('a \<Rightarrow> py_error + 'b) \<Rightarrow> py_error + 'b" where
  "and_then m f = (case m of Inl e \<Rightarrow> Inl e | Inr x \<Rightarrow> f x)"

section \<open>auto\_recognize\_and\_generate.py: confidence\_from\_dates\<close>

datatype confidence = HIGH | MEDIUM | LOW

text \<open>
  The optional arguments \<open>review_dates\<close> and \<open>time_channels\<close> default to the empty list
  (\<open>x or []\<close>), so \<open>None\<close> is the empty list here. The branches are in the order of the source.
\<close>

definition strong_scene_hit :: "ustr list \<Rightarrow> bool" where
  "strong_scene_hit time_channels =
     list_ex (\<lambda>ch. ch = ch_review \<or> ch = ch_order \<or> ch = ch_logistics) time_channels"

definition confidence_from_dates ::
  "date list \<Rightarrow> ustr list \<Rightarrow> date list \<Rightarrow> bool \<Rightarrow> ustr list \<Rightarrow> confidence" where
  "confidence_from_dates dates mark_time_lines review_dates meta_used time_channels =
     (if length dates \<ge> 1 \<and> strong_scene_hit time_channels \<and> \<not> meta_used then HIGH
      else if length dates \<ge> 2 \<and> (mark_time_lines \<noteq> [] \<or> review_dates \<noteq> []) then HIGH
      else if length dates \<ge> 2 then HIGH
      else if length dates = 1 \<and> review_dates \<noteq> [] then MEDIUM
      else if length dates = 1 \<and> meta_used then LOW
      else if length dates = 1 then MEDIUM
      else LOW)"

text \<open>
  The confidence rule in the words of the specification, for comparison with the code: HIGH
  for at least two distinct dates or a single scene-backed date without metadata fallback,
  MEDIUM for exactly one scene-backed date or a single metadata-derived date, LOW otherwise.
\<close>

definition spec_confidence :: "date list \<Rightarrow> bool \<Rightarrow> ustr list \<Rightarrow> confidence" where
  "spec_confidence dates meta_used time_channels =
     (if length (remdups dates) \<ge> 2
         \<or> (length dates = 1 \<and> strong_scene_hit time_channels \<and> \<not> meta_used) then HIGH
      else if (length dates = 1 \<and> strong_scene_hit time_channels)
              \<or> (length dates = 1 \<and> meta_used) then MEDIUM
      else LOW)"

section \<open>auto\_recognize\_and\_generate.py: the noise normalizer\<close>

subsection \<open>Character classes\<close>





subsection \<open>normalize\_ocr\_digits\<close>



subsection \<open>str.replace and re.sub\<close>



fun first_some :: "'a option list \<Rightarrow> 'a option" where
  "first_some [] = None"
| "first_some (Some x # _) = Some x"
| "first_some (None # xs) = first_some xs"




subsection \<open>normalize\_ocr\_date\_text\<close>










subsection \<open>Notions used in the statements\<close>



section \<open>auto\_recognize\_and\_generate.py: dedup\_signature\<close>

text \<open>\<open>str(n)\<close> for a count: its decimal digits.\<close>

fun str_of_nat :: "nat \<Rightarrow> ustr" where
  "str_of_nat n = (if n < 10 then [48 + n] else str_of_nat (n div 10) @ [48 + n mod 10])"

text \<open>
  \<open>normalize_text\<close> deletes every run of whitespace, then every \<open>|\<close> (124) and every
  U+4E28 (20008). \<open>normalize_for_dedup\<close> then deletes every character outside
  the ranges U+4E00 to U+9FA5, \<open>A-Z\<close>, \<open>a-z\<close> and \<open>0-9\<close>.
\<close>

definition normalize_text :: "ustr \<Rightarrow> ustr" where
  "normalize_text s =
     filter (\<lambda>c. c \<noteq> 20008) (filter (\<lambda>c. c \<noteq> 124) (filter (\<lambda>c. \<not> is_space c) s))"

definition dedup_keep :: "nat \<Rightarrow> bool" where
  "dedup_keep c \<longleftrightarrow>
     (19968 \<le> c \<and> c \<le> 40869) \<or> (65 \<le> c \<and> c \<le> 90) \<or> (97 \<le> c \<and> c \<le> 122)
     \<or> (48 \<le> c \<and> c \<le> 57)"

definition normalize_for_dedup :: "ustr \<Rightarrow> ustr" where
  "normalize_for_dedup text = filter dedup_keep (normalize_text text)"

text \<open>\<open>"|".join(xs)\<close>.\<close>

fun join_bar :: "ustr list \<Rightarrow> ustr" where
  "join_bar [] = []"
| "join_bar [x] = x"
| "join_bar (x # y # ys) = x @ [124] @ join_bar (y # ys)"

text \<open>
  What the signature takes from outside the function: the dates that
  \<open>extract_dates_advanced(text, None, None)\<close> finds, \<open>date.isoformat\<close>, and
  \<open>hashlib.sha1(raw.encode("utf-8", errors="ignore")).hexdigest()\<close> as a function of the
  text \<open>raw\<close>. The file enters through its stem and its page count (\<open>pdf_page_count\<close>, which
  is 0 for an unreadable file).
\<close>

record dedup_env =
  extract_dates_advanced :: "ustr \<Rightarrow> date list"
  isoformat :: "date \<Rightarrow> ustr"
  sha1_hex :: "ustr \<Rightarrow> ustr"

definition time_fp :: "dedup_env \<Rightarrow> ustr \<Rightarrow> ustr" where
  "time_fp E text = join_bar (map (isoformat E) (take 3 (extract_dates_advanced E text)))"

definition dedup_raw :: "dedup_env \<Rightarrow> ustr \<Rightarrow> nat \<Rightarrow> ustr \<Rightarrow> ustr" where
  "dedup_raw E stem pc text =
     (let norm = normalize_for_dedup text; fp = time_fp E text
      in if length norm < 80
         then stem @ [124] @ str_of_nat pc @ [124] @ str_of_nat (length norm) @ [124] @ fp
         else take 20000 norm @ [124] @ fp)"

definition dedup_signature :: "dedup_env \<Rightarrow> ustr \<Rightarrow> nat \<Rightarrow> ustr \<Rightarrow> ustr" where
  "dedup_signature E stem pc text = sha1_hex E (dedup_raw E stem pc text)"

text \<open>
  An environment for concrete evaluations: four dates in every text, a date printed as its
  day number, and the identity in place of the hash, so that the hashed text can be read.
\<close>

definition sample_dedup_env :: dedup_env where
  "sample_dedup_env =
     \<lparr> extract_dates_advanced = (\<lambda>_. [1, 2, 3, 4]),
       isoformat = (\<lambda>d. str_of_nat (nat d)),
       sha1_hex = (\<lambda>raw. raw) \<rparr>"

section \<open>generate\_suite\_v2.py: rows, time anchors and field validity\<close>

subsection \<open>Date cells\<close>

text \<open>
  A date cell of a row, after \<open>_to_date_obj\<close>, is \<open>None\<close>, a \<open>datetime.date\<close>, or pandas'
  \<open>NaT\<close>: \<open>_to_date_obj\<close> tests \<open>isinstance(x, dt.datetime)\<close>, which holds of \<open>NaT\<close>, and
  returns \<open>x.date()\<close>, which is \<open>NaT\<close> again. \<open>NaT\<close> is truthy. Between two \<open>NaT\<close> every
  ordering comparison is \<open>False\<close>; between \<open>NaT\<close> and a \<open>datetime.date\<close> an ordering
  comparison raises \<open>TypeError\<close>, whichever side \<open>NaT\<close> is on (pandas 1.3 and later).
\<close>

datatype dval = Day date | NaT

definition lt_d :: "dval \<Rightarrow> dval \<Rightarrow> py_error + bool" where
  "lt_d x y =
     (case (x, y) of
        (Day a, Day b) \<Rightarrow> Inr (a < b)
      | (NaT, NaT) \<Rightarrow> Inr False
      | _ \<Rightarrow> Inl TypeError)"

definition le_d :: "dval \<Rightarrow> dval \<Rightarrow> py_error + bool" where
  "le_d x y =
     (case (x, y) of
        (Day a, Day b) \<Rightarrow> Inr (a \<le> b)
      | (NaT, NaT) \<Rightarrow> Inr False
      | _ \<Rightarrow> Inl TypeError)"

text \<open>
  \<open>min(a, b)\<close> evaluates \<open>b < a\<close> and returns \<open>b\<close> if it holds, else \<open>a\<close>; \<open>max(a, b)\<close>
  evaluates \<open>b > a\<close>, which is \<open>a < b\<close> with the same verdicts on these values.
\<close>

definition min_d :: "dval \<Rightarrow> dval \<Rightarrow> py_error + dval" where
  "min_d a b = and_then (lt_d b a) (\<lambda>less. Inr (if less then b else a))"

definition max_d :: "dval \<Rightarrow> dval \<Rightarrow> py_error + dval" where
  "max_d a b = and_then (lt_d a b) (\<lambda>greater. Inr (if greater then b else a))"

text \<open>
  \<open>abs((x - y).days) > 30\<close>. It is reached with two dates, or with two \<open>NaT\<close>, whose
  difference is \<open>NaT\<close>, with \<open>.days\<close> a NaN that is not greater than 30; a mixed pair has
  raised in the comparison before.
\<close>

definition gap_gt30 :: "dval \<Rightarrow> dval \<Rightarrow> bool" where
  "gap_gt30 x y = (case (x, y) of (Day a, Day b) \<Rightarrow> \<bar>a - b\<bar> > 30 | _ \<Rightarrow> False)"

subsection \<open>Rows\<close>

text \<open>
  A row of the evidence table. Each field holds the text the code examines for that cell:
  \<open>safe_str(r.get(column, ""))\<close>, and its \<open>.upper()\<close> where the code only ever looks at
  the upper-cased text (marked "upper" below). The three date cells hold the result of
  \<open>_to_date_obj\<close> on the cell.
\<close>

record row =
  evidence_id :: ustr                \<comment> \<open>Evidence ID\<close>
  row_type :: ustr                   \<comment> \<open>Type\<close>
  c_start :: "dval option"           \<comment> \<open>Evidence Date Start, else Date Start\<close>
  c_end :: "dval option"             \<comment> \<open>Evidence Date End, else Date End\<close>
  formation_cell :: "dval option"    \<comment> \<open>Formation Date\<close>
  date_confidence :: ustr            \<comment> \<open>Date Confidence, upper\<close>
  time_anchor_text :: ustr           \<comment> \<open>Time Anchor Text\<close>
  content_summary :: ustr            \<comment> \<open>Content Summary\<close>
  evidence_name :: ustr              \<comment> \<open>Evidence Name\<close>
  time_anchor_allowed :: ustr        \<comment> \<open>Time Anchor Allowed, upper\<close>
  time_gate_scope :: ustr            \<comment> \<open>Time Gate Scope (default Y), upper\<close>
  date_validity :: ustr              \<comment> \<open>Date Validity, upper\<close>
  amount_validity :: ustr            \<comment> \<open>Amount Validity, upper\<close>
  party_validity :: ustr             \<comment> \<open>Party Validity, upper\<close>
  goods_validity :: ustr             \<comment> \<open>Goods Validity, upper\<close>
  mark_presence_validity :: ustr     \<comment> \<open>Mark Presence Validity, upper\<close>
  goods_match_level :: ustr          \<comment> \<open>Goods Match Level, upper\<close>
  mark_shown :: ustr                 \<comment> \<open>Mark Shown (Y/N), upper\<close>
  mark_name_confidence :: ustr       \<comment> \<open>Mark Name Confidence, upper\<close>
  trade_amount :: ustr               \<comment> \<open>Trade Amount\<close>
  trade_counterparty :: ustr         \<comment> \<open>Trade Counterparty\<close>
  goods_services :: ustr             \<comment> \<open>Goods/Services\<close>
  entity_consistency :: ustr         \<comment> \<open>Entity Consistency, upper\<close>
  subject_match :: ustr              \<comment> \<open>Subject Match (Y/N), upper\<close>
  commercial_loop :: ustr            \<comment> \<open>Commercial Loop (Y/N), upper\<close>
  verifiable :: ustr                 \<comment> \<open>Original/Verifiable (Y/N), upper\<close>
  proof_target :: ustr               \<comment> \<open>Proof Target (T1-T6)\<close>

subsection \<open>Parsing a range from text\<close>

text \<open>
  The date recognisers of the module: \<open>_to_date_obj\<close> on a string (three \<open>strptime\<close>
  formats, then two regular expressions), and the dates that \<open>_DATE_RE_1.finditer\<close> and
  \<open>_DATE_RE_2.finditer\<close> yield in match order, invalid calendar dates already dropped.
  On a string they yield a \<open>datetime.date\<close> or nothing, never \<open>NaT\<close>. They are parameters
  of the model: what is proved holds for whatever they recognise.
\<close>

record parsers =
  to_date_obj :: "ustr \<Rightarrow> date option"
  re1_dates :: "ustr \<Rightarrow> date list"
  re2_dates :: "ustr \<Rightarrow> date list"

definition extract_dates_from_text :: "parsers \<Rightarrow> ustr \<Rightarrow> date list" where
  "extract_dates_from_text P text =
     (if text = [] then [] else sorted_set (re1_dates P text @ re2_dates P text))"

text \<open>
  \<open>_RANGE_SPLIT.split(s)\<close>: the pattern is one capturing group of seven single-character
  separators (U+81F3, U+5230, \<open>~\<close>, U+2014, \<open>-\<close>, U+FF0D, U+2013), so the result alternates
  the pieces between separators with the separators themselves.
\<close>

definition range_seps :: "nat list" where
  "range_seps = [33267, 21040, 126, 8212, 45, 65293, 8211]"

fun range_split_go :: "ustr \<Rightarrow> ustr \<Rightarrow> ustr list" where
  "range_split_go acc [] = [rev acc]"
| "range_split_go acc (c # cs) =
     (if c \<in> set range_seps then rev acc # [c] # range_split_go [] cs
      else range_split_go (c # acc) cs)"

definition range_split :: "ustr \<Rightarrow> ustr list" where
  "range_split s = range_split_go [] s"

definition range_parts :: "ustr \<Rightarrow> ustr list" where
  "range_parts s =
     map strip (filter (\<lambda>p. p \<noteq> [] \<and> strip p \<noteq> [] \<and> strip p \<notin> set (map (\<lambda>c. [c]) range_seps))
                       (range_split s))"

definition parse_range_from_text :: "parsers \<Rightarrow> ustr \<Rightarrow> date option \<times> date option" where
  "parse_range_from_text P text =
     (if text = [] then (None, None)
      else let s = strip text in
        if s = [] then (None, None)
        else
          let parts = range_parts s;
              fallback =
                (case extract_dates_from_text P s of
                   [] \<Rightarrow> (case to_date_obj P s of Some d \<Rightarrow> (Some d, Some d) | None \<Rightarrow> (None, None))
                 | [d] \<Rightarrow> (Some d, Some d)
                 | d # ds \<Rightarrow> (Some d, Some (last ds)))
          in case parts of
               p0 # p1 # _ \<Rightarrow>
                 (case (to_date_obj P p0, to_date_obj P p1) of
                    (Some d1, Some d2) \<Rightarrow> (Some (min d1 d2), Some (max d1 d2))
                  | _ \<Rightarrow> fallback)
             | _ \<Rightarrow> fallback)"

subsection \<open>infer\_time\_anchor\_row\<close>

text \<open>
  The result keeps the fields the risk engine reads; the \<open>anchor_text\<close> label, a display
  string whose construction does not raise, is left out. The function raises \<open>TypeError\<close>
  where \<open>min\<close>, \<open>max\<close> or the comparison of the formation date with the anchor meets
  \<open>NaT\<close> and a date together.
\<close>

record time_info =
  formation_date :: "dval option"
  anchor_start :: "dval option"
  anchor_end :: "dval option"
  ti_confidence :: ustr
  contradiction :: bool

definition c_anchor_text :: "row \<Rightarrow> ustr" where
  "c_anchor_text r = str_or (time_anchor_text r) (str_or (content_summary r) (evidence_name r))"

definition anchor_of :: "parsers \<Rightarrow> row \<Rightarrow> py_error + dval option \<times> dval option \<times> ustr" where
  "anchor_of P r =
     (let confidence = (if date_confidence r \<in> set [u ''HIGH'', u ''MEDIUM'', u ''LOW'']
                        then date_confidence r else [])
      in case (c_start r, c_end r) of
           (Some d_start, Some d_end) \<Rightarrow>
             and_then (min_d d_start d_end) (\<lambda>lo.
             and_then (max_d d_start d_end) (\<lambda>hi.
               Inr (Some lo, Some hi, str_or confidence (u ''HIGH''))))
         | _ \<Rightarrow>
             (case formation_cell r of
                Some formation \<Rightarrow>
                  Inr (Some formation, Some formation, str_or confidence (u ''MEDIUM''))
              | None \<Rightarrow>
                  (case parse_range_from_text P (c_anchor_text r) of
                     (Some p_start, Some p_end) \<Rightarrow>
                       Inr (Some (Day p_start), Some (Day p_end), str_or confidence (u ''MEDIUM''))
                   | (p_start, p_end) \<Rightarrow>
                       Inr (map_option Day p_start, map_option Day p_end,
                            str_or confidence (u ''LOW'')))))"

text \<open>
  The contradiction test: \<open>not (anchor_start <= formation <= anchor_end)\<close>, the second
  comparison made only if the first holds, and then the two gaps.
\<close>

definition contradiction_of ::
  "dval option \<Rightarrow> dval option \<Rightarrow> dval option \<Rightarrow> py_error + bool" where
  "contradiction_of formation a_start a_end =
     (case (formation, a_start, a_end) of
        (Some f, Some a, Some b) \<Rightarrow>
          and_then (le_d a f) (\<lambda>first.
          and_then (if first then le_d f b else Inr False) (\<lambda>inside.
            Inr (\<not> inside \<and> gap_gt30 f a \<and> gap_gt30 f b)))
      | _ \<Rightarrow> Inr False)"

definition infer_time_anchor_row :: "parsers \<Rightarrow> row \<Rightarrow> py_error + time_info" where
  "infer_time_anchor_row P r =
     and_then (anchor_of P r) (\<lambda>(a_start, a_end, conf).
     and_then (contradiction_of (formation_cell r) a_start a_end) (\<lambda>contra.
       Inr \<lparr> formation_date = formation_cell r,
             anchor_start = a_start,
             anchor_end = a_end,
             ti_confidence = conf,
             contradiction = contra \<rparr>))"

text \<open>
  \<open>overlap\<close>, with an anchor on the left and the period, which is made of dates, on the
  right: \<open>not (a_end < b_start or b_end < a_start)\<close>.
\<close>

definition overlap ::
  "dval option \<Rightarrow> dval option \<Rightarrow> date option \<Rightarrow> date option \<Rightarrow> py_error + bool" where
  "overlap a_start a_end b_start b_end =
     (case (a_start, a_end, b_start, b_end) of
        (Some a1, Some a2, Some b1, Some b2) \<Rightarrow>
          and_then (lt_d a2 (Day b1)) (\<lambda>before.
            if before then Inr False
            else and_then (lt_d (Day b2) a1) (\<lambda>after. Inr (\<not> after)))
      | _ \<Rightarrow> Inr False)"

definition evidence_in_period ::
  "dval option \<Rightarrow> dval option \<Rightarrow> date option \<Rightarrow> date option \<Rightarrow> py_error + bool" where
  "evidence_in_period a_start a_end period_start period_end =
     overlap a_start a_end period_start period_end"

definition time_anchor_allowed_row :: "row \<Rightarrow> bool" where
  "time_anchor_allowed_row r =
     (if time_anchor_allowed r \<in> set [u ''Y'', u ''N''] then time_anchor_allowed r = u ''Y''
      else if time_gate_scope r = u ''N'' then False
      else row_type r \<noteq> kind_procedural)"

subsection \<open>Field validity\<close>

text \<open>
  \<open>normalize_yesno\<close> on the upper-cased cell text; U+662F and U+5426 are the Chinese yes
  and no.
\<close>

definition normalize_yesno :: "ustr \<Rightarrow> ustr" where
  "normalize_yesno s =
     (if s \<in> set [u ''Y'', u ''YES'', u ''1'', [26159], u ''TRUE''] then u ''Y''
      else if s \<in> set [u ''N'', u ''NO'', u ''0'', [21542], u ''FALSE''] then u ''N''
      else [])"

datatype field_key = Date | Amount | Party | Goods | Mark_presence

definition validity_cell :: "row \<Rightarrow> field_key \<Rightarrow> ustr" where
  "validity_cell r key =
     (case key of Date \<Rightarrow> date_validity r | Amount \<Rightarrow> amount_validity r
      | Party \<Rightarrow> party_validity r | Goods \<Rightarrow> goods_validity r
      | Mark_presence \<Rightarrow> mark_presence_validity r)"

definition is_trade :: "row \<Rightarrow> bool" where
  "is_trade r = (contains (row_type r) ch_order \<or> contains (row_type r) kw_contract)"

text \<open>
  \<open>_field_validity\<close>. Only the date key can raise, through \<open>infer_time_anchor_row\<close>, which
  it calls before anything else once no override is found.
\<close>

definition field_validity :: "parsers \<Rightarrow> row \<Rightarrow> field_key \<Rightarrow> py_error + ustr" where
  "field_validity P r key =
     (let raw = validity_cell r key in
      if raw \<in> set [u ''VALID'', u ''INVALID'', u ''N/A''] then Inr raw
      else case key of
        Date \<Rightarrow>
          and_then (infer_time_anchor_row P r) (\<lambda>ti.
            Inr (if \<not> time_anchor_allowed_row r then u ''N/A''
                 else if anchor_start ti \<noteq> None \<and> anchor_end ti \<noteq> None
                         \<and> ti_confidence ti \<in> set [u ''HIGH'', u ''MEDIUM''] then u ''VALID''
                 else u ''INVALID''))
      | Goods \<Rightarrow>
          Inr (if goods_match_level r \<in> set [u ''G1'', u ''G2'']
               then u ''VALID'' else u ''INVALID'')
      | Mark_presence \<Rightarrow>
          (let mark_ok = (normalize_yesno (mark_shown r) = u ''Y'');
               conf = mark_name_confidence r
           in Inr (if mark_ok \<and> conf \<in> set [[], u ''HIGH'', u ''MEDIUM'', u ''N/A'']
                   then u ''VALID'' else u ''INVALID''))
      | Amount \<Rightarrow>
          Inr (if \<not> is_trade r then u ''N/A''
               else if trade_amount r \<noteq> [] then u ''VALID'' else u ''INVALID'')
      | Party \<Rightarrow>
          Inr (if \<not> is_trade r then u ''N/A''
               else if trade_counterparty r \<noteq> [] then u ''VALID'' else u ''INVALID''))"

text \<open>\<open>_field_validity(r, key) == "VALID"\<close>.\<close>

definition is_valid :: "parsers \<Rightarrow> row \<Rightarrow> field_key \<Rightarrow> py_error + bool" where
  "is_valid P r key = and_then (field_validity P r key) (\<lambda>v. Inr (v = u ''VALID''))"

text \<open>A row with every cell empty, from which concrete rows are built.\<close>

definition blank_row :: row where
  "blank_row =
     \<lparr> evidence_id = [], row_type = [], c_start = None, c_end = None, formation_cell = None,
       date_confidence = [], time_anchor_text = [], content_summary = [], evidence_name = [],
       time_anchor_allowed = [], time_gate_scope = u ''Y'', date_validity = [],
       amount_validity = [], party_validity = [], goods_validity = [],
       mark_presence_validity = [], goods_match_level = [], mark_shown = [],
       mark_name_confidence = [], trade_amount = [], trade_counterparty = [],
       goods_services = [], entity_consistency = [], subject_match = [],
       commercial_loop = [], verifiable = [], proof_target = [] \<rparr>"

text \<open>Parsers that recognise nothing, for concrete evaluations.\<close>

definition no_parsers :: parsers where
  "no_parsers = \<lparr> to_date_obj = (\<lambda>_. None), re1_dates = (\<lambda>_. []), re2_dates = (\<lambda>_. []) \<rparr>"

text \<open>
  Parsers for concrete evaluations that read the text \<open>A\<close> as day 300 and \<open>B\<close> as day 200.
\<close>

definition sample_parsers :: parsers where
  "sample_parsers =
     \<lparr> to_date_obj = (\<lambda>s. if s = u ''A'' then Some 300 else if s = u ''B'' then Some 200 else None),
       re1_dates = (\<lambda>_. []), re2_dates = (\<lambda>_. []) \<rparr>"

section \<open>generate\_suite\_v2.py: the risk engine\<close>

subsection \<open>The rule profile\<close>

text \<open>
  \<open>RUNTIME_RULES\<close>, block by block. A field is \<open>None\<close> where the profile has no such key,
  and the code then falls back to the default written at the call (\<open>cfg.get(key, default)\<close>).
  The profile is taken well-typed: a numeric key holds a number, a level key a text.
\<close>

record time_score_weights =
  t_base :: "real option"
  t_in_period_highmed :: "real option"
  t_in_period_low :: "real option"
  t_unknown_penalty :: "real option"
  t_contradiction_penalty :: "real option"
  t_out_period_penalty :: "real option"

record anchor_min_profile =
  min_time_score :: "real option"
  min_mapping_score :: "real option"
  min_loop_score :: "real option"
  min_verif_score :: "real option"
  min_in_period_highmed :: "int option"
  max_unknown_time :: "int option"

record mapping_score_weights =
  m_base :: "real option"
  m_per_target :: "real option"
  m_goods_ratio_bonus :: "real option"

record loop_score_weights =
  l_base :: "real option"
  l_loop_ratio_bonus :: "real option"
  l_mark_ratio_bonus :: "real option"
  l_subject_ratio_bonus :: "real option"
  l_weak_loop_proxy_min :: "int option"
  l_weak_loop_penalty :: "real option"

record verifiability_score_weights =
  v_base :: "real option"
  v_verifiable_ratio_bonus :: "real option"
  v_contradiction_penalty :: "real option"

record risk_level_thresholds =
  avg_A_min :: "real option"
  min_dim_A_min :: "real option"
  avg_B_min :: "real option"
  avg_C_min :: "real option"

record anchor_degrade =
  both_g5_g6_if_anchor_ok :: "ustr option"
  both_g5_g6_if_anchor_not_ok :: "ustr option"
  one_of_g5_g6_if_anchor_ok :: "ustr option"
  one_of_g5_g6_if_anchor_not_ok :: "ustr option"

record rules =
  time_cfg :: time_score_weights
  anchor_cfg :: anchor_min_profile
  map_cfg :: mapping_score_weights
  loop_cfg :: loop_score_weights
  ver_cfg :: verifiability_score_weights
  risk_cfg :: risk_level_thresholds
  degrade_cfg :: anchor_degrade
  hard_fail_level_cfg :: "ustr option"

text \<open>\<open>cfg.get(key, default)\<close>.\<close>

definition cfg_get :: "'a option \<Rightarrow> 'a \<Rightarrow> 'a" where
  "cfg_get v dflt = (case v of Some x \<Rightarrow> x | None \<Rightarrow> dflt)"

text \<open>A profile without any key: every lookup takes its default.\<close>

definition empty_rules :: rules where
  "empty_rules =
     \<lparr> time_cfg = \<lparr> t_base = None, t_in_period_highmed = None, t_in_period_low = None,
                    t_unknown_penalty = None, t_contradiction_penalty = None,
                    t_out_period_penalty = None \<rparr>,
       anchor_cfg = \<lparr> min_time_score = None, min_mapping_score = None, min_loop_score = None,
                      min_verif_score = None, min_in_period_highmed = None,
                      max_unknown_time = None \<rparr>,
       map_cfg = \<lparr> m_base = None, m_per_target = None, m_goods_ratio_bonus = None \<rparr>,
       loop_cfg = \<lparr> l_base = None, l_loop_ratio_bonus = None, l_mark_ratio_bonus = None,
                    l_subject_ratio_bonus = None, l_weak_loop_proxy_min = None,
                    l_weak_loop_penalty = None \<rparr>,
       ver_cfg = \<lparr> v_base = None, v_verifiable_ratio_bonus = None,
                   v_contradiction_penalty = None \<rparr>,
       risk_cfg = \<lparr> avg_A_min = None, min_dim_A_min = None, avg_B_min = None,
                    avg_C_min = None \<rparr>,
       degrade_cfg = \<lparr> both_g5_g6_if_anchor_ok = None, both_g5_g6_if_anchor_not_ok = None,
                       one_of_g5_g6_if_anchor_ok = None, one_of_g5_g6_if_anchor_not_ok = None \<rparr>,
       hard_fail_level_cfg = None \<rparr>"

subsection \<open>Floating point\<close>

text \<open>
  The scores are Python floats. A float is the real number it denotes, and the operations
  on floats, which round, are parameters of the model: addition, subtraction,
  multiplication, true division and \<open>round(x, 1)\<close>. Comparisons, \<open>max\<close> and \<open>min\<close> of floats
  are exact. Nothing proved below depends on how an operation rounds, except where a
  statement says so.
\<close>

record float_ops =
  fadd :: "real \<Rightarrow> real \<Rightarrow> real"
  fsub :: "real \<Rightarrow> real \<Rightarrow> real"
  fmul :: "real \<Rightarrow> real \<Rightarrow> real"
  fdiv :: "real \<Rightarrow> real \<Rightarrow> real"
  fround1 :: "real \<Rightarrow> real"

text \<open>An arithmetic without rounding error, for concrete evaluations.\<close>

definition exact_floats :: float_ops where
  "exact_floats =
     \<lparr> fadd = (\<lambda>x y. x + y), fsub = (\<lambda>x y. x - y), fmul = (\<lambda>x y. x * y),
       fdiv = (\<lambda>x y. x / y), fround1 = (\<lambda>x. of_int (round (x * 10)) / 10) \<rparr>"

subsection \<open>Scoring targets\<close>

definition target_codes :: "ustr list" where
  "target_codes = [u ''T1'', u ''T2'', u ''T3'', u ''T4'', u ''T5'', u ''T6'']"

text \<open>
  \<open>_targets_for_scoring\<close>: a target is dropped when the field behind it is not VALID; the
  validity is looked up only for the target at hand.
\<close>

definition keep_target :: "parsers \<Rightarrow> row \<Rightarrow> ustr \<Rightarrow> py_error + bool" where
  "keep_target P r t =
     (if t = u ''T4'' then is_valid P r Date
      else if t = u ''T3'' then is_valid P r Goods
      else if t = u ''T2'' then is_valid P r Mark_presence
      else if t = u ''T6'' then
        and_then (is_valid P r Amount) (\<lambda>amount_ok.
          if \<not> amount_ok then Inr False else is_valid P r Party)
      else Inr True)"

fun filter_r :: "('a \<Rightarrow> py_error + bool) \<Rightarrow> 'a list \<Rightarrow> py_error + 'a list" where
  "filter_r p [] = Inr []"
| "filter_r p (x # xs) =
     and_then (p x) (\<lambda>keep.
     and_then (filter_r p xs) (\<lambda>rest. Inr (if keep then x # rest else rest)))"

definition targets_for_scoring :: "parsers \<Rightarrow> row \<Rightarrow> py_error + ustr list" where
  "targets_for_scoring P r =
     filter_r (keep_target P r) (filter (\<lambda>t. contains (proof_target r) t) target_codes)"

subsection \<open>The loop over the evidence rows\<close>

text \<open>
  What the loop body works out about one row before it touches a counter, named as the local
  variables of the source and computed in their order. Everything that can raise is here.
\<close>

record row_facts =
  f_ti :: time_info
  f_allowed :: bool
  f_date_valid :: bool
  f_goods_valid :: bool
  f_mark_valid :: bool
  f_amount_valid :: bool
  f_party_valid :: bool
  f_in_period :: bool
  f_score_targets :: "ustr list"

definition analyse_row ::
  "parsers \<Rightarrow> date option \<Rightarrow> date option \<Rightarrow> row \<Rightarrow> py_error + row_facts" where
  "analyse_row P period_start period_end r =
     and_then (infer_time_anchor_row P r) (\<lambda>ti.
     and_then (is_valid P r Date) (\<lambda>date_valid.
     and_then (is_valid P r Goods) (\<lambda>goods_valid.
     and_then (is_valid P r Mark_presence) (\<lambda>mark_valid.
     and_then (is_valid P r Amount) (\<lambda>amount_valid.
     and_then (is_valid P r Party) (\<lambda>party_valid.
     and_then (if period_start \<noteq> None \<and> period_end \<noteq> None
                  \<and> anchor_start ti \<noteq> None \<and> anchor_end ti \<noteq> None
               then evidence_in_period (anchor_start ti) (anchor_end ti) period_start period_end
               else Inr False) (\<lambda>in_period.
     and_then (targets_for_scoring P r) (\<lambda>score_targets.
       Inr \<lparr> f_ti = ti, f_allowed = time_anchor_allowed_row r, f_date_valid = date_valid,
             f_goods_valid = goods_valid, f_mark_valid = mark_valid,
             f_amount_valid = amount_valid, f_party_valid = party_valid,
             f_in_period = in_period, f_score_targets = score_targets \<rparr>))))))))"

text \<open>
  The counters of \<open>build_defense_diagnostics\<close>. The two coverage dictionaries are lists of
  six counts, for T1 to T6; \<open>n_rows\<close> is \<open>len(ev_rows)\<close>, so the running number \<open>seq\<close> is
  \<open>n_rows + 1\<close>; \<open>g1d_rows\<close> lists the rows appended to the G1d details, each as its
  evidence ID and running number (the source appends the display label built from both).
  The display table \<open>ev_rows\<close> itself and the \<open>top_risks\<close> texts do not feed back into the
  flags, the scores or the level and are left out.
\<close>

record tally =
  in_period_highmed :: nat
  in_period_low :: nat
  out_period :: nat
  unknown_time :: nat
  contradictions :: nat
  in_period_reference :: nat
  program_in_period :: nat
  eligible_time_rows :: nat
  goods_nonempty_total :: nat
  goods_nonempty_allowed :: nat
  goods_matched_total :: nat
  goods_matched_allowed :: nat
  mark_yes_total :: nat
  mark_yes_allowed :: nat
  subject_yes_total :: nat
  subject_yes_allowed :: nat
  loop_yes_total :: nat
  loop_yes_allowed :: nat
  verifiable_yes_total :: nat
  verifiable_yes_allowed :: nat
  t_coverage_total :: "nat list"
  t_coverage_allowed :: "nat list"
  n_rows :: nat
  g1d_rows :: "(ustr \<times> nat) list"

definition tally0 :: tally where
  "tally0 =
     \<lparr> in_period_highmed = 0, in_period_low = 0, out_period = 0, unknown_time = 0,
       contradictions = 0, in_period_reference = 0, program_in_period = 0,
       eligible_time_rows = 0, goods_nonempty_total = 0, goods_nonempty_allowed = 0,
       goods_matched_total = 0, goods_matched_allowed = 0, mark_yes_total = 0,
       mark_yes_allowed = 0, subject_yes_total = 0, subject_yes_allowed = 0,
       loop_yes_total = 0, loop_yes_allowed = 0, verifiable_yes_total = 0,
       verifiable_yes_allowed = 0, t_coverage_total = [0, 0, 0, 0, 0, 0],
       t_coverage_allowed = [0, 0, 0, 0, 0, 0], n_rows = 0, g1d_rows = [] \<rparr>"

text \<open>\<open>n += 1\<close> under a condition.\<close>

definition bump :: "bool \<Rightarrow> nat \<Rightarrow> nat" where
  "bump b n = (if b then Suc n else n)"

text \<open>
  The tests the counters are updated under: the time of a row is known when its date field
  is VALID and both anchor endpoints are present; its confidence is high or medium.
\<close>

definition fact_known :: "row_facts \<Rightarrow> bool" where
  "fact_known f =
     (\<not> (\<not> f_date_valid f \<or> anchor_start (f_ti f) = None \<or> anchor_end (f_ti f) = None))"

definition fact_highmed :: "row_facts \<Rightarrow> bool" where
  "fact_highmed f = (ti_confidence (f_ti f) \<in> set [u ''HIGH'', u ''MEDIUM''])"

definition tally_add :: "tally \<Rightarrow> row \<Rightarrow> row_facts \<Rightarrow> tally" where
  "tally_add t r f =
     (let ti = f_ti f;
          allowed = f_allowed f;
          date_valid = f_date_valid f;
          trade_like = is_trade r;
          in_pd = f_in_period f;
          known = fact_known f;
          highmed = fact_highmed f;
          subject_yes = (normalize_yesno (subject_match r) = u ''Y''
                         \<or> entity_consistency r \<in> set [u ''E1'', u ''E2'']);
          loop_yes = (normalize_yesno (commercial_loop r) = u ''Y'');
          verif_yes = (normalize_yesno (verifiable r) = u ''Y'');
          goods_hit = (f_goods_valid f \<and> goods_match_level r \<in> set [u ''G1'', u ''G2''])
      in t\<lparr> eligible_time_rows := bump (allowed \<and> date_valid) (eligible_time_rows t),
            in_period_reference :=
              bump (\<not> (allowed \<and> date_valid) \<and> in_pd) (in_period_reference t),
            program_in_period :=
              bump (\<not> (allowed \<and> date_valid) \<and> in_pd \<and> row_type r = kind_procedural)
                   (program_in_period t),
            contradictions := bump (contradiction ti) (contradictions t),
            g1d_rows := (if contradiction ti
                         then g1d_rows t @ [(evidence_id r, Suc (n_rows t))]
                         else g1d_rows t),
            unknown_time := bump (allowed \<and> \<not> known) (unknown_time t),
            in_period_highmed :=
              bump (allowed \<and> known \<and> in_pd \<and> highmed) (in_period_highmed t),
            in_period_low :=
              bump (allowed \<and> known \<and> in_pd \<and> \<not> highmed) (in_period_low t),
            out_period := bump (allowed \<and> known \<and> \<not> in_pd) (out_period t),
            goods_nonempty_total := bump (goods_services r \<noteq> []) (goods_nonempty_total t),
            goods_nonempty_allowed :=
              bump (goods_services r \<noteq> [] \<and> allowed) (goods_nonempty_allowed t),
            goods_matched_total := bump goods_hit (goods_matched_total t),
            goods_matched_allowed := bump (goods_hit \<and> allowed) (goods_matched_allowed t),
            mark_yes_total := bump (f_mark_valid f) (mark_yes_total t),
            mark_yes_allowed := bump (f_mark_valid f \<and> allowed) (mark_yes_allowed t),
            subject_yes_total := bump subject_yes (subject_yes_total t),
            subject_yes_allowed := bump (subject_yes \<and> allowed) (subject_yes_allowed t),
            loop_yes_total := bump loop_yes (loop_yes_total t),
            loop_yes_allowed :=
              bump (loop_yes \<and> allowed
                    \<and> (\<not> trade_like \<or> (f_amount_valid f \<and> f_party_valid f)))
                   (loop_yes_allowed t),
            verifiable_yes_total := bump verif_yes (verifiable_yes_total t),
            verifiable_yes_allowed := bump (verif_yes \<and> allowed) (verifiable_yes_allowed t),
            t_coverage_total :=
              map (\<lambda>(tc, n). bump (contains (proof_target r) tc) n)
                  (zip target_codes (t_coverage_total t)),
            t_coverage_allowed :=
              map (\<lambda>(tc, n). bump (contains (proof_target r) tc \<and> allowed
                                     \<and> tc \<in> set (f_score_targets f)) n)
                  (zip target_codes (t_coverage_allowed t)),
            n_rows := Suc (n_rows t) \<rparr>)"

text \<open>
  The loop: a row without an evidence ID is skipped before anything is computed on it; an
  exception raised on a row ends the loop and the function.
\<close>

fun diag_loop_from ::
  "parsers \<Rightarrow> date option \<Rightarrow> date option \<Rightarrow> tally \<Rightarrow> row list \<Rightarrow> py_error + tally" where
  "diag_loop_from P period_start period_end t [] = Inr t"
| "diag_loop_from P period_start period_end t (r # rs) =
     (if evidence_id r = [] then diag_loop_from P period_start period_end t rs
      else and_then (analyse_row P period_start period_end r) (\<lambda>f.
             diag_loop_from P period_start period_end (tally_add t r f) rs))"

definition diag_loop ::
  "parsers \<Rightarrow> date option \<Rightarrow> date option \<Rightarrow> row list \<Rightarrow> py_error + tally" where
  "diag_loop P period_start period_end rows = diag_loop_from P period_start period_end tally0 rows"

subsection \<open>Gates, scores and the result\<close>

datatype gate = G1a | G1b | G1c | G1d | G2 | G3 | G4 | G5 | G6

text \<open>
  The entries of \<open>gate_details\<close>: the fixed texts of the source, one constructor each, and
  the evidence labels of G1d.
\<close>

datatype detail =
    Period_missing
  | No_coverage
  | Low_confidence_only
  | Reference_lane_only
  | Goods_unmatched
  | Mark_unconfirmed
  | Subject_unconfirmed
  | Loop_missing
  | Unverifiable
  | Evidence_label ustr nat

record dim_scores =
  Time :: real
  Mapping :: real
  Loop :: real
  Verifiability :: real

record diagnostics =
  gate_details :: "gate \<Rightarrow> detail list"
  scores :: dim_scores
  summary :: tally

text \<open>\<open>gate_flags = {k: bool(v) for k, v in gate_details.items()}\<close>.\<close>

definition gate_flags :: "diagnostics \<Rightarrow> gate \<Rightarrow> bool" where
  "gate_flags d g = (gate_details d g \<noteq> [])"

text \<open>
  \<open>a / b\<close> on two counts: true division, which raises \<open>ZeroDivisionError\<close> on a zero
  divisor.
\<close>

definition truediv :: "float_ops \<Rightarrow> nat \<Rightarrow> nat \<Rightarrow> py_error + real" where
  "truediv F a b = (if b = 0 then Inl ZeroDivisionError else Inr (fdiv F (real a) (real b)))"

definition clamp :: "real \<Rightarrow> real" where
  "clamp x = max 0 (min 100 x)"

text \<open>\<open>t_coverage_allowed.get("T5", 0)\<close>: the fifth count.\<close>

definition t5_allowed :: "tally \<Rightarrow> nat" where
  "t5_allowed t = (case drop 4 (t_coverage_allowed t) of n # _ \<Rightarrow> n | [] \<Rightarrow> 0)"

definition weak_loop_proxy :: "tally \<Rightarrow> nat" where
  "weak_loop_proxy t =
     min (min (mark_yes_allowed t) (subject_yes_allowed t))
         (min (t5_allowed t) (in_period_highmed t))"

definition weak_loop :: "rules \<Rightarrow> tally \<Rightarrow> bool" where
  "weak_loop R t =
     (loop_yes_allowed t = 0
      \<and> int (weak_loop_proxy t) < cfg_get (l_weak_loop_proxy_min (loop_cfg R)) 6)"

definition gate_details_of ::
  "rules \<Rightarrow> date option \<Rightarrow> date option \<Rightarrow> tally \<Rightarrow> gate \<Rightarrow> detail list" where
  "gate_details_of R period_start period_end t g =
     (case g of
        G1a \<Rightarrow> (if period_start = None \<or> period_end = None then [Period_missing] else [])
      | G1b \<Rightarrow>
          (if period_start = None \<or> period_end = None then []
           else (if in_period_highmed t = 0 \<and> in_period_low t = 0 then [No_coverage] else [])
                @ (if in_period_highmed t = 0 \<and> in_period_reference t > 0
                   then [Reference_lane_only] else []))
      | G1c \<Rightarrow>
          (if period_start = None \<or> period_end = None then []
           else if in_period_highmed t = 0 \<and> in_period_low t = 0 then []
           else if in_period_highmed t = 0 \<and> in_period_low t > 0 then [Low_confidence_only]
           else [])
      | G1d \<Rightarrow> map (\<lambda>(eid, seq). Evidence_label eid seq) (g1d_rows t)
      | G2 \<Rightarrow> (if goods_matched_allowed t = 0 then [Goods_unmatched] else [])
      | G3 \<Rightarrow> (if mark_yes_allowed t = 0 then [Mark_unconfirmed] else [])
      | G4 \<Rightarrow> (if subject_yes_allowed t = 0 then [Subject_unconfirmed] else [])
      | G5 \<Rightarrow> (if weak_loop R t then [Loop_missing] else [])
      | G6 \<Rightarrow> (if verifiable_yes_allowed t = 0 then [Unverifiable] else []))"

text \<open>
  The four scores, each built up in the order of the source. With an unresolved period the
  Time score is the literal \<open>0.0\<close>.
\<close>

definition time_score ::
  "float_ops \<Rightarrow> rules \<Rightarrow> date option \<Rightarrow> date option \<Rightarrow> tally \<Rightarrow> py_error + real" where
  "time_score F R period_start period_end t =
     (let c = time_cfg R; time_ev = max 1 (eligible_time_rows t); base = cfg_get (t_base c) 40
      in if period_start \<noteq> None \<and> period_end \<noteq> None then
           and_then (truediv F (in_period_highmed t) time_ev) (\<lambda>hm.
           and_then (truediv F (in_period_low t) time_ev) (\<lambda>lo.
           and_then (truediv F (unknown_time t) time_ev) (\<lambda>un.
           and_then (truediv F (contradictions t) time_ev) (\<lambda>co.
           and_then (truediv F (out_period t) time_ev) (\<lambda>ou.
             Inr (clamp
               (fsub F (fsub F (fsub F
                  (fadd F (fadd F base (fmul F (cfg_get (t_in_period_highmed c) 45) hm))
                          (fmul F (cfg_get (t_in_period_low c) 15) lo))
                  (fmul F (cfg_get (t_unknown_penalty c) 35) un))
                  (fmul F (cfg_get (t_contradiction_penalty c) 20) co))
                  (fmul F (cfg_get (t_out_period_penalty c) 10) ou))))))))
         else Inr (clamp 0))"

definition mapping_score :: "float_ops \<Rightarrow> rules \<Rightarrow> tally \<Rightarrow> py_error + real" where
  "mapping_score F R t =
     (let c = map_cfg R; allowed_ev = max 1 (eligible_time_rows t);
          covered_targets = length (filter (\<lambda>n. n > 0) (t_coverage_allowed t))
      in and_then (truediv F (goods_matched_allowed t) allowed_ev) (\<lambda>gr.
           Inr (clamp
             (fadd F (fadd F (cfg_get (m_base c) 30)
                             (fmul F (cfg_get (m_per_target c) 10) (real covered_targets)))
                     (fmul F (cfg_get (m_goods_ratio_bonus c) 20) gr)))))"

definition loop_score :: "float_ops \<Rightarrow> rules \<Rightarrow> tally \<Rightarrow> py_error + real" where
  "loop_score F R t =
     (let c = loop_cfg R; allowed_ev = max 1 (eligible_time_rows t)
      in and_then (truediv F (loop_yes_allowed t) allowed_ev) (\<lambda>lr.
         and_then (truediv F (mark_yes_allowed t) allowed_ev) (\<lambda>mr.
         and_then (truediv F (subject_yes_allowed t) allowed_ev) (\<lambda>sr.
           (let s = fadd F (fadd F (fadd F (cfg_get (l_base c) 45)
                                           (fmul F (cfg_get (l_loop_ratio_bonus c) 30) lr))
                                   (fmul F (cfg_get (l_mark_ratio_bonus c) 15) mr))
                           (fmul F (cfg_get (l_subject_ratio_bonus c) 10) sr)
            in Inr (clamp (if weak_loop R t
                           then fsub F s (cfg_get (l_weak_loop_penalty c) 10) else s)))))))"

definition verif_score :: "float_ops \<Rightarrow> rules \<Rightarrow> tally \<Rightarrow> py_error + real" where
  "verif_score F R t =
     (let c = ver_cfg R; allowed_ev = max 1 (eligible_time_rows t);
          time_ev = max 1 (eligible_time_rows t)
      in and_then (truediv F (verifiable_yes_allowed t) allowed_ev) (\<lambda>vr.
         and_then (truediv F (contradictions t) time_ev) (\<lambda>co.
           Inr (clamp
             (fsub F (fadd F (cfg_get (v_base c) 25)
                             (fmul F (cfg_get (v_verifiable_ratio_bonus c) 70) vr))
                     (fmul F (cfg_get (v_contradiction_penalty c) 15) co))))))"

text \<open>
  \<open>build_defense_diagnostics\<close>. The result is \<open>Inl\<close> with the exception where the source
  raises: \<open>TypeError\<close> from a row that brings \<open>NaT\<close> and a date together.
\<close>

definition build_defense_diagnostics ::
  "float_ops \<Rightarrow> rules \<Rightarrow> parsers \<Rightarrow> row list \<Rightarrow> date option \<Rightarrow> date option
   \<Rightarrow> py_error + diagnostics" where
  "build_defense_diagnostics F R P df_def period_start period_end =
     and_then (diag_loop P period_start period_end df_def) (\<lambda>t.
     and_then (time_score F R period_start period_end t) (\<lambda>ts.
     and_then (mapping_score F R t) (\<lambda>ms.
     and_then (loop_score F R t) (\<lambda>ls.
     and_then (verif_score F R t) (\<lambda>vs.
       Inr \<lparr> gate_details = gate_details_of R period_start period_end t,
             scores = \<lparr> Time = fround1 F ts, Mapping = fround1 F ms, Loop = fround1 F ls,
                        Verifiability = fround1 F vs \<rparr>,
             summary = t \<rparr>)))))"

subsection \<open>The risk level\<close>

definition meets_anchor_minimum :: "rules \<Rightarrow> diagnostics \<Rightarrow> bool" where
  "meets_anchor_minimum R d =
     (let c = anchor_cfg R; ds = scores d; s = summary d
      in Time ds \<ge> cfg_get (min_time_score c) 45
         \<and> Mapping ds \<ge> cfg_get (min_mapping_score c) 85
         \<and> Loop ds \<ge> cfg_get (min_loop_score c) 45
         \<and> Verifiability ds \<ge> cfg_get (min_verif_score c) 85
         \<and> int (in_period_highmed s) \<ge> cfg_get (min_in_period_highmed c) 8
         \<and> int (unknown_time s) \<le> cfg_get (max_unknown_time c) 8)"

definition hard_fail_level :: "rules \<Rightarrow> ustr" where
  "hard_fail_level R = cfg_get (hard_fail_level_cfg R) (u ''E'')"

definition risk_level_from_case :: "float_ops \<Rightarrow> rules \<Rightarrow> diagnostics \<Rightarrow> ustr" where
  "risk_level_from_case F R d =
     (let gf = gate_flags d; ds = scores d; anchor_ok = meets_anchor_minimum R d;
          rc = risk_cfg R; dc = degrade_cfg R;
          avg = fdiv F (fadd F (fadd F (fadd F (Time ds) (Mapping ds)) (Loop ds))
                               (Verifiability ds)) 4;
          lowest = min (min (Time ds) (Mapping ds)) (min (Loop ds) (Verifiability ds))
      in if gf G1a \<or> gf G1b then hard_fail_level R
         else if gf G2 \<or> gf G3 \<or> gf G4 then hard_fail_level R
         else if gf G5 \<and> gf G6 then
           (if anchor_ok then cfg_get (both_g5_g6_if_anchor_ok dc) (u ''C'')
            else cfg_get (both_g5_g6_if_anchor_not_ok dc) (u ''D''))
         else if gf G5 \<or> gf G6 then
           (if anchor_ok then cfg_get (one_of_g5_g6_if_anchor_ok dc) (u ''B'')
            else cfg_get (one_of_g5_g6_if_anchor_not_ok dc) (u ''C''))
         else if avg \<ge> cfg_get (avg_A_min rc) 85 \<and> lowest \<ge> cfg_get (min_dim_A_min rc) 75
           then u ''A''
         else if avg \<ge> cfg_get (avg_B_min rc) 68 then u ''B''
         else if avg \<ge> cfg_get (avg_C_min rc) 55 then u ''C''
         else u ''D'')"

text \<open>The engine end to end: the diagnostics, then the level derived from them.\<close>

definition risk_engine ::
  "float_ops \<Rightarrow> rules \<Rightarrow> parsers \<Rightarrow> row list \<Rightarrow> date option \<Rightarrow> date option
   \<Rightarrow> py_error + diagnostics \<times> ustr" where
  "risk_engine F R P df_def period_start period_end =
     and_then (build_defense_diagnostics F R P df_def period_start period_end) (\<lambda>d.
       Inr (d, risk_level_from_case F R d))"

subsection \<open>Notions used in the statements\<close>

text \<open>A row none of whose date cells is \<open>NaT\<close>.\<close>

definition nat_free :: "row \<Rightarrow> bool" where
  "nat_free r = (c_start r \<noteq> Some NaT \<and> c_end r \<noteq> Some NaT \<and> formation_cell r \<noteq> Some NaT)"

text \<open>
  A counted row (one with an evidence ID) covers the period when it is in scope, its date
  field is VALID, both anchor endpoints are present and the anchor overlaps the period; it
  is a reference row for the period when its anchor overlaps the period but it is not both
  in scope and date-valid. Both are false of a row on which the loop body raises.
\<close>

definition row_covers :: "parsers \<Rightarrow> date option \<Rightarrow> date option \<Rightarrow> row \<Rightarrow> bool" where
  "row_covers P period_start period_end r =
     (evidence_id r \<noteq> []
      \<and> (case analyse_row P period_start period_end r of
           Inr f \<Rightarrow> f_allowed f \<and> fact_known f \<and> f_in_period f
         | Inl _ \<Rightarrow> False))"

definition row_highmed :: "parsers \<Rightarrow> date option \<Rightarrow> date option \<Rightarrow> row \<Rightarrow> bool" where
  "row_highmed P period_start period_end r =
     (case analyse_row P period_start period_end r of
        Inr f \<Rightarrow> fact_highmed f
      | Inl _ \<Rightarrow> False)"

definition row_reference :: "parsers \<Rightarrow> date option \<Rightarrow> date option \<Rightarrow> row \<Rightarrow> bool" where
  "row_reference P period_start period_end r =
     (evidence_id r \<noteq> []
      \<and> (case analyse_row P period_start period_end r of
           Inr f \<Rightarrow> \<not> (f_allowed f \<and> f_date_valid f) \<and> f_in_period f
         | Inl _ \<Rightarrow> False))"

text \<open>The flag of a gate in the outcome of a call, false where the call raised.\<close>

definition result_gate :: "gate \<Rightarrow> py_error + diagnostics \<Rightarrow> bool" where
  "result_gate g res = (case res of Inr d \<Rightarrow> gate_flags d g | Inl _ \<Rightarrow> False)"

text \<open>The level in the outcome of the engine, if it returned.\<close>

definition engine_level :: "py_error + diagnostics \<times> ustr \<Rightarrow> ustr option" where
  "engine_level res = (case res of Inr (d, level) \<Rightarrow> Some level | Inl _ \<Rightarrow> None)"

text \<open>
  G1b in the words of the specification, for comparison with the code: true if and only if
  no counted in-scope row has an anchor of confidence HIGH, MEDIUM or LOW in the period.
\<close>

definition spec_g1b :: "parsers \<Rightarrow> row list \<Rightarrow> date option \<Rightarrow> date option \<Rightarrow> bool" where
  "spec_g1b P rows period_start period_end =
     (\<not> list_ex (\<lambda>r. evidence_id r \<noteq> []
                      \<and> (case analyse_row P period_start period_end r of
                           Inr f \<Rightarrow> f_allowed f
                                    \<and> ti_confidence (f_ti f)
                                        \<in> set [u ''HIGH'', u ''MEDIUM'', u ''LOW'']
                                    \<and> f_in_period f
                         | Inl _ \<Rightarrow> False)) rows)"

text \<open>
  A row with evidence ID \<open>E1\<close>, the explicit one-day range 200 to 200 and a given date
  confidence.
\<close>

definition dated_row :: "ustr \<Rightarrow> row" where
  "dated_row conf =
     blank_row\<lparr> evidence_id := u ''E1'', c_start := Some (Day 200), c_end := Some (Day 200),
                date_confidence := conf \<rparr>"

section \<open>auto\_recognize\_and\_generate.py: build\_time\_anchor\_candidates\<close>

text \<open>
  A Python \<open>dict\<close> keeps its keys in insertion order; it is an association list in which
  a new key goes to the end and an existing key keeps its place.
\<close>

fun dict_get :: "('k \<times> 'v) list \<Rightarrow> 'k \<Rightarrow> 'v \<Rightarrow> 'v" where
  "dict_get [] k dflt = dflt"
| "dict_get ((k', v) # kvs) k dflt = (if k' = k then v else dict_get kvs k dflt)"

fun dict_set :: "('k \<times> 'v) list \<Rightarrow> 'k \<Rightarrow> 'v \<Rightarrow> ('k \<times> 'v) list" where
  "dict_set [] k v = [(k, v)]"
| "dict_set ((k', v') # kvs) k v = (if k' = k then (k, v) # kvs else (k', v') # dict_set kvs k v)"

datatype anchor_type = transaction_date | system_generated | content_claimed | uncertain


definition channel_weight :: "ustr \<Rightarrow> int" where
  "channel_weight ch =
     (if ch = ch_review then 8 else if ch = ch_order then 7
      else if ch = ch_logistics then 6 else if ch = ch_base then 3 else 1)"


text \<open>
  The first loop of the function reads the context text line by line and fills two
  dictionaries, \<open>date_type_hint\<close> and \<open>date_excluded\<close>, from the dates and keywords it
  finds. The model starts from these two dictionaries: \<open>date_type_hint H d = None\<close> means
  that \<open>d\<close> is not a key, and \<open>date_excluded H d\<close> is \<open>date_excluded.get(d, False)\<close>.
\<close>

record context_hints =
  date_type_hint :: "date \<Rightarrow> anchor_type option"
  date_excluded :: "date \<Rightarrow> bool"


definition candidate_score ::
  "context_hints \<Rightarrow> date option \<Rightarrow> date option \<Rightarrow> ustr \<Rightarrow> ustr \<Rightarrow> date \<Rightarrow> int" where
  "candidate_score H period_start period_end evidence_kind ch d =
     channel_weight ch
     + (case (period_start, period_end) of
          (Some s, Some e) \<Rightarrow> if s \<le> d \<and> d \<le> e then 3 else - 2
        | _ \<Rightarrow> 0)
     + (case date_type_hint H d of
          Some transaction_date \<Rightarrow> 4 | Some system_generated \<Rightarrow> 2
        | Some content_claimed \<Rightarrow> - 4 | Some uncertain \<Rightarrow> - 1 | None \<Rightarrow> 0)
     + (if date_excluded H d then - 6 else 0)
     + (if strip evidence_kind = kind_procedural then - 6 else 0)"

text \<open>
  The state of the inner function \<open>add\<close>: \<open>date_channels\<close> (the set of channels of a
  date, kept as a duplicate-free list) and \<open>date_score\<close>.
\<close>

type_synonym add_state = "(date \<times> ustr list) list \<times> (date \<times> int) list"

definition add_one ::
  "context_hints \<Rightarrow> date option \<Rightarrow> date option \<Rightarrow> ustr \<Rightarrow> ustr \<Rightarrow> add_state \<Rightarrow> date \<Rightarrow> add_state"
  where
  "add_one H period_start period_end evidence_kind ch st d =
     (case st of (date_channels, date_score) \<Rightarrow>
        (let old = dict_get date_channels d [];
             chans = (if ch \<in> set old then old else old @ [ch]);
             score = candidate_score H period_start period_end evidence_kind ch d
         in (dict_set date_channels d chans,
             dict_set date_score d (dict_get date_score d 0 + score))))"

definition add ::
  "context_hints \<Rightarrow> date option \<Rightarrow> date option \<Rightarrow> ustr \<Rightarrow> date list \<Rightarrow> ustr \<Rightarrow> add_state \<Rightarrow> add_state"
  where
  "add H period_start period_end evidence_kind ds ch st =
     foldl (add_one H period_start period_end evidence_kind ch) st ds"

record cand =
  cand_date :: date
  channels :: "ustr list"
  score :: int
  in_period :: bool
  channel_best :: int
  cand_confidence :: confidence
  cand_anchor_type :: anchor_type
  anchor_source :: ustr
  excluded :: bool











section \<open>auto\_recognize\_and\_generate.py: run\_fixed\_five\_round\_scans\<close>

text \<open>
  A file is its path; \<open>case_info\<close> holds, for the six keys the controller reads, the value
  \<open>case_info.get(key, "") or ""\<close>.
\<close>

type_synonym path = ustr

record case_info =
  ci_reg_no :: ustr
  ci_class :: ustr
  ci_mark_name :: ustr
  ci_respondent :: ustr
  ci_applicant :: ustr
  ci_goods_hint :: ustr

text \<open>
  What the controller takes from outside. \<open>read_scan_text\<close> is the inner function
  \<open>_read_scan_text\<close> with everything behind it (prefilled text, the resolution of the scan
  mode, the recognition call and its cache): it is given a state \<open>'o\<close> of its own, so that
  nothing is assumed about two calls returning the same text. \<open>infer_case\<close> is
  \<open>merge_case_info(infer_case_info(notice_text), infer_case_info(all_text))\<close>,
  \<open>signal_score\<close> is \<open>_scan_text_signal_score(text, mark_hint, goods_hint)\<close>, and \<open>name_of\<close>
  is \<open>p.name\<close>.
\<close>

record 'o scan_env =
  read_scan_text :: "'o \<Rightarrow> path \<Rightarrow> int \<Rightarrow> int \<Rightarrow> ustr \<times> 'o"
  infer_case :: "ustr \<Rightarrow> ustr \<Rightarrow> case_info"
  signal_score :: "ustr \<Rightarrow> ustr \<Rightarrow> ustr \<Rightarrow> int"
  pdf_page_count :: "path \<Rightarrow> int"
  name_of :: "path \<Rightarrow> ustr"

record scan_args =
  files :: "path list"
  normal_pages :: int
  notice_pages :: int
  dpi :: int
  notice_dpi :: int
  scan_mode_by_file :: "(path \<times> ustr) list"

text \<open>
  The state of the loop: the dictionary \<open>scan_texts\<close>, the state of the recognition
  collaborator, and a log of the calls of \<open>_read_scan_text\<close> (round, file, page budget,
  resolution), kept to say which files a round scans. A stage is the state at the end of a
  round together with the case fields and the two hints inferred then.
\<close>

record 'o scan_state =
  scan_texts :: "(path \<times> ustr) list"
  ocr :: 'o
  requests :: "(nat \<times> path \<times> int \<times> int) list"

record 'o stage =
  st_scan :: "'o scan_state"
  st_case :: case_info
  st_mark :: ustr
  st_goods :: ustr


fun join_nl :: "ustr list \<Rightarrow> ustr" where
  "join_nl [] = []"
| "join_nl [x] = x"
| "join_nl (x # y # ys) = x @ [10] @ join_nl (y # ys)"



text \<open>
  \<open>list(dict.fromkeys(xs))\<close> is \<open>unique_first\<close>. The keyword lists are those of the source,
  as code points: the names of notices, of trade mark records, of structured documents, of
  display material, and the name of a chat image; \<open>unrecognised\<close> is the text shown for an
  empty mark hint.
\<close>

definition notice_keywords :: "ustr list" where
  "notice_keywords = [[36890, 30693, 20070], [25764, 19977], [20915, 23450], [35009, 23450]]"






definition any_in :: "ustr list \<Rightarrow> ustr \<Rightarrow> bool" where
  "any_in keywords name = list_ex (\<lambda>k. contains name k) keywords"


definition notice_candidates :: "'o scan_env \<Rightarrow> scan_args \<Rightarrow> path list" where
  "notice_candidates E A =
     (let hits = filter (\<lambda>p. any_in notice_keywords (name_of E p)) (files A)
      in if hits = [] then take (min 3 (length (files A))) (files A) else hits)"




definition text_of :: "'o scan_state \<Rightarrow> path \<Rightarrow> ustr" where
  "text_of st p = dict_get (scan_texts st) p []"





definition round_case :: "'o scan_env \<Rightarrow> scan_args \<Rightarrow> 'o scan_state \<Rightarrow> case_info" where
  "round_case E A st =
     infer_case E (join_nl (map (text_of st) (notice_candidates E A)))
                  (join_nl (map (text_of st) (files A)))"

definition refine_stage :: "'o scan_env \<Rightarrow> scan_args \<Rightarrow> ustr \<Rightarrow> ustr \<Rightarrow> 'o scan_state \<Rightarrow> 'o stage" where
  "refine_stage E A mark_hint goods_hint st =
     (let c = round_case E A st
      in \<lparr> st_scan = st, st_case = c,
           st_mark = (if strip (ci_mark_name c) \<noteq> [] then ci_mark_name c else mark_hint),
           st_goods = (if strip (ci_goods_hint c) \<noteq> [] then ci_goods_hint c else goods_hint) \<rparr>)"




text \<open>
  An entry of the audit trail. The title and the goal of a round are fixed texts and are left
  out; the detail text is kept by its content: the counts and the mark of round 1, nothing
  for round 2, and for a later round whether it was triggered, with the missing fields and
  the low-signal share it reports.
\<close>

datatype round_detail =
    Detail_first nat nat ustr
  | Detail_none
  | Detail_triggered "ustr list" real
  | Detail_not_triggered real

record round_entry =
  round_no :: nat
  selected_count :: nat
  max_pages :: int
  round_dpi :: int
  round_detail :: round_detail

definition triggered :: "round_entry \<Rightarrow> bool" where
  "triggered e = (case round_detail e of Detail_triggered _ _ \<Rightarrow> True | _ \<Rightarrow> False)"

definition trigger_detail :: "bool \<Rightarrow> ustr list \<Rightarrow> real \<Rightarrow> round_detail" where
  "trigger_detail trigger missing ratio =
     (if trigger then Detail_triggered missing ratio else Detail_not_triggered ratio)"



















definition round_paths :: "nat \<Rightarrow> (nat \<times> path \<times> int \<times> int) list \<Rightarrow> path list" where
  "round_paths rnd reqs = map (\<lambda>(n, p, pages, d). p) (filter (\<lambda>(n, p, pages, d). n = rnd) reqs)"




section \<open>Theorems\<close>

subsection \<open>Exceptions\<close>

lemma and_then_Inr [simp]: "and_then (Inr x) f = f x"
  by (simp add: and_then_def)

lemma and_then_Inl [simp]: "and_then (Inl e) f = Inl e"
  by (simp add: and_then_def)

lemma and_then_eq_Inr:
  "and_then m f = Inr y \<longleftrightarrow> (\<exists>x. m = Inr x \<and> f x = Inr y)"
  by (cases m) simp_all

subsection \<open>Derived confidence\<close>

text \<open>
  C2 (as amended). The derived confidence is HIGH when the date list has at least two
  entries, or at least one entry together with a scene channel (review, order, logistics) and
  no metadata fallback; otherwise MEDIUM when the list has exactly one entry and either review
  dates exist or metadata was not used; LOW otherwise, that is for no date at all or for a
  single metadata-derived date without review dates.
\<close>

theorem confidence_from_dates_cases:
  "confidence_from_dates dates mtl review_dates meta_used chs =
     (if length dates \<ge> 2 \<or> (length dates \<ge> 1 \<and> strong_scene_hit chs \<and> \<not> meta_used) then HIGH
      else if length dates = 1 \<and> (review_dates \<noteq> [] \<or> \<not> meta_used) then MEDIUM
      else LOW)"
  unfolding confidence_from_dates_def by auto

theorem confidence_from_dates_cases_witness:
  "confidence_from_dates [738000] [] [] True [ch_review] = LOW
   \<and> confidence_from_dates [738000] [] [] False [ch_review] = HIGH
   \<and> confidence_from_dates [738000] [] [] False [] = MEDIUM"
  using confidence_from_dates_cases [of "[738000]" "[]" "[]" True "[ch_review]"]
        confidence_from_dates_cases [of "[738000]" "[]" "[]" False "[ch_review]"]
        confidence_from_dates_cases [of "[738000]" "[]" "[]" False "[]"]
  by (simp add: strong_scene_hit_def)

text \<open>
  The claim as written fails on a single metadata-derived date without review dates: the
  specification's rule gives MEDIUM, the code returns LOW.
\<close>

theorem confidence_from_dates_counterexample:
  "spec_confidence [738000] True [] = MEDIUM
   \<and> confidence_from_dates [738000] [] [] True [] = LOW"
  by (simp add: spec_confidence_def confidence_from_dates_def strong_scene_hit_def)

subsection \<open>Mark-presence validity\<close>




subsection \<open>The time-anchor resolver\<close>









subsection \<open>Order of the anchor endpoints\<close>

lemma cmp_days [simp]:
  "lt_d (Day a) (Day b) = Inr (a < b)"
  "le_d (Day a) (Day b) = Inr (a \<le> b)"
  by (simp_all add: lt_d_def le_d_def)

lemma cmp_nat [simp]:
  "lt_d NaT NaT = Inr False"
  "le_d NaT NaT = Inr False"
  "lt_d NaT (Day b) = Inl TypeError"
  "lt_d (Day a) NaT = Inl TypeError"
  "le_d NaT (Day b) = Inl TypeError"
  "le_d (Day a) NaT = Inl TypeError"
  by (simp_all add: lt_d_def le_d_def)

lemma min_max_days [simp]:
  "min_d (Day a) (Day b) = Inr (Day (min a b))"
  "max_d (Day a) (Day b) = Inr (Day (max a b))"
  by (auto simp: min_d_def max_d_def)

lemma sorted_set_first_last:
  assumes "sorted_set xs = d # ds" "ds \<noteq> []"
  shows "d \<le> last ds"
proof -
  have "sorted (d # ds)" using assms(1) [symmetric] by (simp add: sorted_set_def)
  then have "\<forall>x \<in> set ds. d \<le> x" by simp
  with assms(2) show ?thesis by (meson last_in_set)
qed

lemma extract_dates_first_last:
  "extract_dates_from_text P s = d # ds \<Longrightarrow> ds \<noteq> [] \<Longrightarrow> d \<le> last ds"
  by (auto simp: extract_dates_from_text_def split: if_splits dest: sorted_set_first_last)

text \<open>Every pair of dates that range parsing from text returns is ordered.\<close>

lemma parse_range_ordered:
  "parse_range_from_text P text = (Some a, Some b) \<Longrightarrow> a \<le> b"
  unfolding parse_range_from_text_def Let_def
  by (auto split: if_splits list.splits option.splits dest: extract_dates_first_last)

lemma parse_range_example:
  "parse_range_from_text sample_parsers (u ''A ~ B'') = (Some 200, Some 300)"
  by (simp add: parse_range_from_text_def range_parts_def range_split_def strip_def is_space_def
      u_def range_seps_def sample_parsers_def extract_dates_from_text_def sorted_set_def Let_def)

text \<open>
  On a row none of whose date cells is \<open>NaT\<close> the anchor is inferred without an exception
  and has no \<open>NaT\<close> endpoint.
\<close>

lemma anchor_of_nat_free:
  assumes "nat_free r"
  shows "\<exists>a b c. anchor_of P r = Inr (a, b, c) \<and> a \<noteq> Some NaT \<and> b \<noteq> Some NaT"
proof (cases "c_start r")
  case None
  then show ?thesis
    using assms
    by (cases "formation_cell r")
       (auto simp: anchor_of_def Let_def nat_free_def split: prod.splits option.splits)
next
  case (Some x)
  note cs = this
  show ?thesis
  proof (cases "c_end r")
    case None
    then show ?thesis
      using assms cs
      by (cases "formation_cell r")
         (auto simp: anchor_of_def Let_def nat_free_def split: prod.splits option.splits)
  next
    case (Some y)
    from assms cs Some obtain a b where "x = Day a" "y = Day b"
      by (cases x; cases y) (auto simp: nat_free_def)
    with cs Some show ?thesis
      by (simp add: anchor_of_def Let_def)
  qed
qed

lemma contradiction_of_days:
  assumes "f \<noteq> Some NaT" "a \<noteq> Some NaT" "b \<noteq> Some NaT"
  shows "\<exists>c. contradiction_of f a b = Inr c"
proof (cases "\<exists>x y z. f = Some (Day x) \<and> a = Some (Day y) \<and> b = Some (Day z)")
  case True
  then show ?thesis by (auto simp: contradiction_of_def)
next
  case False
  with assms have "f = None \<or> a = None \<or> b = None"
    by (metis dval.exhaust option.exhaust)
  then show ?thesis
    by (auto simp: contradiction_of_def split: option.splits)
qed

lemma infer_nat_free:
  assumes "nat_free r"
  shows "\<exists>ti. infer_time_anchor_row P r = Inr ti
           \<and> anchor_start ti \<noteq> Some NaT \<and> anchor_end ti \<noteq> Some NaT"
proof -
  from anchor_of_nat_free [OF assms] obtain a b c where
    ab: "anchor_of P r = Inr (a, b, c)" "a \<noteq> Some NaT" "b \<noteq> Some NaT" by blast
  from assms have "formation_cell r \<noteq> Some NaT" by (simp add: nat_free_def)
  from contradiction_of_days [OF this ab(2,3)] obtain k where
    "contradiction_of (formation_cell r) a b = Inr k" by blast
  with ab show ?thesis by (simp add: infer_time_anchor_row_def)
qed

text \<open>
  Where the anchor is inferred and both its endpoints are dates, the start is not after the
  end: the explicit range comes out of \<open>min\<close> and \<open>max\<close>, the formation branch repeats one
  date, and the text branch returns an ordered pair.
\<close>

lemma anchor_of_ordered:
  assumes "anchor_of P r = Inr (Some (Day a), Some (Day b), c)"
  shows "a \<le> b"
proof (cases "\<exists>x y. c_start r = Some x \<and> c_end r = Some y")
  case True
  then obtain x y where xy: "c_start r = Some x" "c_end r = Some y" by blast
  show ?thesis
  proof (cases x)
    case (Day p)
    note dx = this
    show ?thesis
    proof (cases y)
      case (Day q)
      with assms xy dx show ?thesis by (auto simp: anchor_of_def Let_def)
    next
      case NaT
      with assms xy dx show ?thesis by (simp add: anchor_of_def Let_def min_d_def)
    qed
  next
    case NaT
    note nx = this
    show ?thesis
    proof (cases y)
      case (Day q)
      with assms xy nx show ?thesis by (simp add: anchor_of_def Let_def min_d_def)
    next
      case NaT
      with assms xy nx show ?thesis by (simp add: anchor_of_def Let_def min_d_def max_d_def)
    qed
  qed
next
  case False
  then have ne: "c_start r = None \<or> c_end r = None" by auto
  show ?thesis
  proof (cases "formation_cell r")
    case (Some f)
    with assms ne show ?thesis
      by (auto simp: anchor_of_def Let_def split: option.splits)
  next
    case None
    with assms ne show ?thesis
      by (auto simp: anchor_of_def Let_def split: option.splits prod.splits
            dest: parse_range_ordered)
  qed
qed

lemma time_anchor_ordered_on_dates:
  assumes "infer_time_anchor_row P r = Inr ti"
    and "anchor_start ti = Some (Day a)" "anchor_end ti = Some (Day b)"
  shows "a \<le> b"
proof -
  from assms(1) obtain x y c where xy: "anchor_of P r = Inr (x, y, c)"
    and ti: "anchor_start ti = x" "anchor_end ti = y"
    by (auto simp: infer_time_anchor_row_def and_then_eq_Inr)
  with assms(2,3) show ?thesis using anchor_of_ordered [of P r a b c] by simp
qed

text \<open>
  C5. The claim fails on a row with a \<open>NaT\<close> date cell, which \<open>_to_date_obj\<close> lets through
  although it is declared to return a date or \<open>None\<close>. A row whose only date cell is a
  \<open>NaT\<close> Formation Date gets the anchor \<open>(NaT, NaT)\<close> with confidence MEDIUM: both
  endpoints are non-null, and \<open>start <= end\<close> is false of them. A row with the explicit
  range \<open>NaT\<close> to \<open>NaT\<close> gets the same anchor with confidence HIGH. A row with a date in
  one explicit endpoint and \<open>NaT\<close> in the other gets no anchor at all: \<open>min\<close> raises
  \<open>TypeError\<close>.
\<close>

theorem time_anchor_unordered_on_nat:
  "infer_time_anchor_row no_parsers (blank_row\<lparr>formation_cell := Some NaT\<rparr>)
     = Inr \<lparr> formation_date = Some NaT, anchor_start = Some NaT, anchor_end = Some NaT,
             ti_confidence = u ''MEDIUM'', contradiction = False \<rparr>
   \<and> infer_time_anchor_row no_parsers (blank_row\<lparr>c_start := Some NaT, c_end := Some NaT\<rparr>)
     = Inr \<lparr> formation_date = None, anchor_start = Some NaT, anchor_end = Some NaT,
             ti_confidence = u ''HIGH'', contradiction = False \<rparr>
   \<and> le_d NaT NaT = Inr False
   \<and> infer_time_anchor_row no_parsers (blank_row\<lparr>c_start := Some (Day 5), c_end := Some NaT\<rparr>)
     = Inl TypeError"
  by (simp add: infer_time_anchor_row_def anchor_of_def contradiction_of_def blank_row_def
      min_d_def max_d_def gap_gt30_def str_or_def Let_def u_def)

subsection \<open>The risk engine\<close>

lemma truediv_max: "truediv F a (max (Suc 0) b) = Inr (fdiv F (real a) (real (max (Suc 0) b)))"
  by (simp add: truediv_def)

lemma clamp_0: "clamp 0 = 0"
  by (simp add: clamp_def)

lemma mapping_score_Inr: "\<exists>x. mapping_score F R t = Inr x"
  by (simp add: mapping_score_def Let_def truediv_max)

lemma loop_score_Inr: "\<exists>x. loop_score F R t = Inr x"
  by (simp add: loop_score_def Let_def truediv_max)

lemma verif_score_Inr: "\<exists>x. verif_score F R t = Inr x"
  by (simp add: verif_score_def Let_def truediv_max)

lemma time_score_Inr: "\<exists>x. time_score F R ps pe t = Inr x"
  by (simp add: time_score_def Let_def truediv_max)

lemma time_score_unresolved: "ps = None \<or> pe = None \<Longrightarrow> time_score F R ps pe t = Inr 0"
  by (auto simp: time_score_def Let_def clamp_0)

text \<open>The diagnostics are returned exactly when the loop over the rows is.\<close>

lemma build_of_loop:
  assumes "diag_loop P ps pe rows = Inr t"
  shows "\<exists>sc. build_defense_diagnostics F R P rows ps pe =
           Inr \<lparr> gate_details = gate_details_of R ps pe t, scores = sc, summary = t \<rparr>
           \<and> (ps = None \<or> pe = None \<longrightarrow> Time sc = fround1 F 0)"
proof -
  obtain a b c d where
    "time_score F R ps pe t = Inr a" "ps = None \<or> pe = None \<longrightarrow> a = 0"
    "mapping_score F R t = Inr b" "loop_score F R t = Inr c" "verif_score F R t = Inr d"
    using time_score_Inr [of F R ps pe t] time_score_unresolved [of ps pe F R t]
      mapping_score_Inr [of F R t] loop_score_Inr [of F R t] verif_score_Inr [of F R t]
    by (metis Inr_inject)
  with assms show ?thesis
    by (simp add: build_defense_diagnostics_def)
qed

lemma build_Inr_loop:
  assumes "build_defense_diagnostics F R P rows ps pe = Inr d"
  shows "\<exists>t. diag_loop P ps pe rows = Inr t \<and> gate_details d = gate_details_of R ps pe t"
proof (cases "diag_loop P ps pe rows")
  case (Inl e)
  with assms show ?thesis by (simp add: build_defense_diagnostics_def)
next
  case (Inr t)
  from build_of_loop [OF this, of F R] assms Inr show ?thesis by auto
qed

text \<open>The loop is run to its end on rows without \<open>NaT\<close>.\<close>

lemma overlap_days:
  assumes "a \<noteq> Some NaT" "b \<noteq> Some NaT"
  shows "\<exists>v. overlap a b ps pe = Inr v"
proof (cases "\<exists>x y s e. a = Some (Day x) \<and> b = Some (Day y) \<and> ps = Some s \<and> pe = Some e")
  case True
  then show ?thesis by (auto simp: overlap_def)
next
  case False
  with assms have "a = None \<or> b = None \<or> ps = None \<or> pe = None"
    by (metis dval.exhaust option.exhaust)
  then show ?thesis by (auto simp: overlap_def split: option.splits)
qed

lemma field_validity_nat_free:
  assumes "nat_free r"
  shows "\<exists>v. field_validity P r key = Inr v"
proof -
  from infer_nat_free [OF assms, of P] obtain ti where "infer_time_anchor_row P r = Inr ti"
    by blast
  then show ?thesis
    by (cases key) (simp_all add: field_validity_def Let_def)
qed

lemma is_valid_nat_free:
  assumes "nat_free r"
  shows "\<exists>v. is_valid P r key = Inr v"
  using field_validity_nat_free [OF assms, of P key] by (auto simp: is_valid_def)

lemma filter_r_total:
  assumes "\<And>x. \<exists>v. p x = Inr v"
  shows "\<exists>ys. filter_r p xs = Inr ys"
proof (induction xs)
  case Nil
  show ?case by simp
next
  case (Cons x xs)
  from assms obtain v where "p x = Inr v" by blast
  with Cons show ?case by auto
qed

lemma targets_nat_free:
  assumes "nat_free r"
  shows "\<exists>ts. targets_for_scoring P r = Inr ts"
  unfolding targets_for_scoring_def
proof (rule filter_r_total)
  fix t
  obtain a b c d e where
    "is_valid P r Date = Inr a" "is_valid P r Goods = Inr b" "is_valid P r Mark_presence = Inr c"
    "is_valid P r Amount = Inr d" "is_valid P r Party = Inr e"
    using is_valid_nat_free [OF assms, of P] by metis
  then show "\<exists>v. keep_target P r t = Inr v"
    by (auto simp: keep_target_def)
qed

lemma analyse_row_nat_free:
  assumes "nat_free r"
  shows "\<exists>f. analyse_row P ps pe r = Inr f"
proof -
  from infer_nat_free [OF assms, of P] obtain ti where
    ti: "infer_time_anchor_row P r = Inr ti"
        "anchor_start ti \<noteq> Some NaT" "anchor_end ti \<noteq> Some NaT" by blast
  obtain a b c d e where
    v: "is_valid P r Date = Inr a" "is_valid P r Goods = Inr b"
       "is_valid P r Mark_presence = Inr c"
       "is_valid P r Amount = Inr d" "is_valid P r Party = Inr e"
    using is_valid_nat_free [OF assms, of P] by metis
  from overlap_days [OF ti(2,3), of ps pe] obtain ov where
    ov: "overlap (anchor_start ti) (anchor_end ti) ps pe = Inr ov" by blast
  from targets_nat_free [OF assms, of P] obtain ts where
    ts: "targets_for_scoring P r = Inr ts" by blast
  show ?thesis
    by (simp add: analyse_row_def ti(1) v ov ts evidence_in_period_def)
qed

lemma diag_loop_from_nat_free:
  assumes "list_all nat_free rows"
  shows "\<exists>t'. diag_loop_from P ps pe t rows = Inr t'"
  using assms
proof (induction rows arbitrary: t)
  case Nil
  show ?case by simp
next
  case (Cons r rows)
  from Cons.prems have "nat_free r" "list_all nat_free rows" by simp_all
  from analyse_row_nat_free [OF this(1), of P ps pe] obtain f where
    "analyse_row P ps pe r = Inr f" by blast
  with Cons.IH [OF \<open>list_all nat_free rows\<close>] show ?case by simp
qed

lemma build_nat_free:
  assumes "list_all nat_free rows"
  shows "\<exists>d. build_defense_diagnostics F R P rows ps pe = Inr d"
proof -
  from diag_loop_from_nat_free [OF assms, of P ps pe tally0] obtain t where
    "diag_loop P ps pe rows = Inr t" by (auto simp: diag_loop_def)
  from build_of_loop [OF this, of F R] show ?thesis by blast
qed

text \<open>What the loop leaves in the three counters that G1b is computed from.\<close>

lemma tally_add_counts:
  "in_period_highmed (tally_add t r f) =
     bump (f_allowed f \<and> fact_known f \<and> f_in_period f \<and> fact_highmed f) (in_period_highmed t)"
  "in_period_low (tally_add t r f) =
     bump (f_allowed f \<and> fact_known f \<and> f_in_period f \<and> \<not> fact_highmed f) (in_period_low t)"
  "in_period_reference (tally_add t r f) =
     bump (\<not> (f_allowed f \<and> f_date_valid f) \<and> f_in_period f) (in_period_reference t)"
  by (simp_all add: tally_add_def Let_def)

lemma loop_counts:
  assumes "diag_loop_from P ps pe t rows = Inr t'"
  shows "in_period_highmed t' = in_period_highmed t
           + length (filter (\<lambda>r. row_covers P ps pe r \<and> row_highmed P ps pe r) rows)
         \<and> in_period_low t' = in_period_low t
           + length (filter (\<lambda>r. row_covers P ps pe r \<and> \<not> row_highmed P ps pe r) rows)
         \<and> in_period_reference t' = in_period_reference t
           + length (filter (row_reference P ps pe) rows)"
  using assms
proof (induction rows arbitrary: t)
  case Nil
  then show ?case by simp
next
  case (Cons r rows)
  show ?case
  proof (cases "evidence_id r = []")
    case True
    with Cons.prems have "diag_loop_from P ps pe t rows = Inr t'" by simp
    from Cons.IH [OF this] True show ?thesis
      by (simp add: row_covers_def row_reference_def)
  next
    case False
    with Cons.prems obtain f where
      f: "analyse_row P ps pe r = Inr f"
      and rest: "diag_loop_from P ps pe (tally_add t r f) rows = Inr t'"
      by (auto simp: and_then_eq_Inr)
    from Cons.IH [OF rest] False f show ?thesis
      by (auto simp: tally_add_counts bump_def row_covers_def row_highmed_def row_reference_def)
  qed
qed

lemma length_filter_0: "length (filter p xs) = 0 \<longleftrightarrow> \<not> (\<exists>x \<in> set xs. p x)"
  by (auto simp: filter_empty_conv)

lemma g1b_of_loop:
  assumes "diag_loop P (Some s) (Some e) rows = Inr t"
  shows "gate_details_of R (Some s) (Some e) t G1b \<noteq> [] \<longleftrightarrow>
     \<not> (\<exists>r \<in> set rows. row_covers P (Some s) (Some e) r \<and> row_highmed P (Some s) (Some e) r)
     \<and> (\<not> (\<exists>r \<in> set rows. row_covers P (Some s) (Some e) r)
        \<or> (\<exists>r \<in> set rows. row_reference P (Some s) (Some e) r))"
proof -
  from loop_counts [OF assms [unfolded diag_loop_def]]
  have c: "in_period_highmed t =
             length (filter (\<lambda>r. row_covers P (Some s) (Some e) r
                                  \<and> row_highmed P (Some s) (Some e) r) rows)"
          "in_period_low t =
             length (filter (\<lambda>r. row_covers P (Some s) (Some e) r
                                  \<and> \<not> row_highmed P (Some s) (Some e) r) rows)"
          "in_period_reference t = length (filter (row_reference P (Some s) (Some e)) rows)"
    by (simp_all add: tally0_def)
  show ?thesis
    unfolding gate_details_of_def
    by (auto simp: c length_filter_0 filter_empty_conv)
qed

text \<open>The two rows of the examples, analysed against the period from day 100 to day 300.\<close>

lemma dated_row_id: "evidence_id (dated_row c) \<noteq> []"
  by (simp add: dated_row_def blank_row_def u_def)

lemma dated_row_nat_free: "nat_free (dated_row c)"
  by (simp add: dated_row_def blank_row_def nat_free_def)

lemma dated_row_infer:
  "c \<in> set [u ''HIGH'', u ''MEDIUM'', u ''LOW''] \<Longrightarrow>
   infer_time_anchor_row no_parsers (dated_row c)
     = Inr \<lparr> formation_date = None, anchor_start = Some (Day 200), anchor_end = Some (Day 200),
             ti_confidence = c, contradiction = False \<rparr>"
  by (auto simp: infer_time_anchor_row_def anchor_of_def contradiction_of_def dated_row_def
      blank_row_def str_or_def Let_def u_def)

lemma dated_row_allowed: "time_anchor_allowed_row (dated_row c)"
  by (simp add: time_anchor_allowed_row_def dated_row_def blank_row_def kind_procedural_def u_def)

lemma dated_row_date_valid:
  "is_valid no_parsers (dated_row (u ''HIGH'')) Date = Inr True"
  "is_valid no_parsers (dated_row (u ''LOW'')) Date = Inr False"
proof -
  have v: "date_validity (dated_row c) = []" for c
    by (simp add: dated_row_def blank_row_def)
  have ne: "u ''LOW'' \<noteq> u ''HIGH''" "u ''LOW'' \<noteq> u ''MEDIUM''" "u ''INVALID'' \<noteq> u ''VALID''"
    "[] \<noteq> u ''VALID''" "[] \<noteq> u ''INVALID''" "[] \<noteq> u ''N/A''"
    by (simp_all add: u_def)
  show "is_valid no_parsers (dated_row (u ''HIGH'')) Date = Inr True"
    using dated_row_infer [of "u ''HIGH''"] dated_row_allowed [of "u ''HIGH''"] ne
    by (simp add: is_valid_def field_validity_def validity_cell_def v Let_def)
  show "is_valid no_parsers (dated_row (u ''LOW'')) Date = Inr False"
    using dated_row_infer [of "u ''LOW''"] dated_row_allowed [of "u ''LOW''"] ne
    by (simp add: is_valid_def field_validity_def validity_cell_def v Let_def)
qed

lemma dated_row_facts:
  assumes "c \<in> set [u ''HIGH'', u ''MEDIUM'', u ''LOW'']"
    and "is_valid no_parsers (dated_row c) Date = Inr v"
  shows "\<exists>f. analyse_row no_parsers (Some 100) (Some 300) (dated_row c) = Inr f
           \<and> f_allowed f \<and> f_date_valid f = v \<and> f_in_period f
           \<and> anchor_start (f_ti f) \<noteq> None \<and> anchor_end (f_ti f) \<noteq> None
           \<and> ti_confidence (f_ti f) = c"
proof -
  obtain b m a p where
    others: "is_valid no_parsers (dated_row c) Goods = Inr b"
       "is_valid no_parsers (dated_row c) Mark_presence = Inr m"
       "is_valid no_parsers (dated_row c) Amount = Inr a"
       "is_valid no_parsers (dated_row c) Party = Inr p"
    using is_valid_nat_free [OF dated_row_nat_free, of no_parsers c] by metis
  from targets_nat_free [OF dated_row_nat_free, of no_parsers c] obtain ts where
    ts: "targets_for_scoring no_parsers (dated_row c) = Inr ts" by blast
  show ?thesis
    using dated_row_allowed [of c]
    by (simp add: analyse_row_def dated_row_infer [OF assms(1)] assms(2) others ts
          evidence_in_period_def overlap_def)
qed

text \<open>
  C9 (as amended). When the defined period is unresolved (start or end missing) and no date
  cell of the table is \<open>NaT\<close>, the risk engine returns a result: the diagnostics have gate
  G1a set, the Time score is 0 (given that \<open>round(0.0, 1)\<close> is \<open>0.0\<close>), and the derived
  risk level is the hard-fail level of the rule profile, which is E when the profile names
  none.
\<close>

theorem unresolved_period_degrades:
  assumes "period_start = None \<or> period_end = None"
    and "list_all nat_free df_def"
    and "fround1 F 0 = 0"
  shows "\<exists>d. build_defense_diagnostics F R P df_def period_start period_end = Inr d
           \<and> risk_engine F R P df_def period_start period_end = Inr (d, hard_fail_level R)
           \<and> gate_flags d G1a \<and> Time (scores d) = 0
           \<and> risk_level_from_case F R d = hard_fail_level R
           \<and> (hard_fail_level_cfg R = None \<longrightarrow> hard_fail_level R = u ''E'')"
proof -
  from diag_loop_from_nat_free [OF assms(2), of P period_start period_end tally0] obtain t where
    "diag_loop P period_start period_end df_def = Inr t" by (auto simp: diag_loop_def)
  from build_of_loop [OF this, of F R] obtain sc where
    b: "build_defense_diagnostics F R P df_def period_start period_end =
          Inr \<lparr> gate_details = gate_details_of R period_start period_end t, scores = sc,
                summary = t \<rparr>"
    and sc: "Time sc = fround1 F 0"
    using assms(1) by blast
  let ?d = "\<lparr> gate_details = gate_details_of R period_start period_end t, scores = sc,
               summary = t \<rparr>"
  have g: "gate_flags ?d G1a"
    using assms(1) by (auto simp: gate_flags_def gate_details_of_def)
  then have l: "risk_level_from_case F R ?d = hard_fail_level R"
    by (simp add: risk_level_from_case_def Let_def)
  have e: "hard_fail_level_cfg R = None \<longrightarrow> hard_fail_level R = u ''E''"
    by (simp add: hard_fail_level_def cfg_get_def)
  from b g l e sc assms(3) show ?thesis
    by (simp add: risk_engine_def)
qed

theorem unresolved_period_degrades_witness:
  "\<exists>d. risk_engine exact_floats empty_rules no_parsers [dated_row (u ''HIGH'')] None (Some 300)
          = Inr (d, u ''E'')
        \<and> gate_flags d G1a \<and> Time (scores d) = 0"
  using unresolved_period_degrades [of None "Some 300" "[dated_row (u ''HIGH'')]" exact_floats
          empty_rules no_parsers] dated_row_nat_free [of "u ''HIGH''"]
  by (auto simp: hard_fail_level_def empty_rules_def cfg_get_def exact_floats_def)

text \<open>
  The claim as written fails under a rule profile that names another hard-fail level: with
  \<open>hard_fail_level\<close> set to A the derived level of a case with an unresolved period is A,
  the best tier, and not the worst.
\<close>

theorem unresolved_period_counterexample:
  "engine_level (risk_engine exact_floats (empty_rules\<lparr>hard_fail_level_cfg := Some (u ''A'')\<rparr>)
       no_parsers [dated_row (u ''HIGH'')] None (Some 300)) = Some (u ''A'')
   \<and> u ''A'' \<noteq> u ''E''"
proof -
  let ?R = "empty_rules\<lparr>hard_fail_level_cfg := Some (u ''A'')\<rparr>"
  have n: "list_all nat_free [dated_row (u ''HIGH'')]"
    by (simp add: dated_row_nat_free)
  from diag_loop_from_nat_free [OF n, of no_parsers None "Some 300" tally0] obtain t where
    "diag_loop no_parsers None (Some 300) [dated_row (u ''HIGH'')] = Inr t"
    by (auto simp: diag_loop_def)
  from build_of_loop [OF this, of exact_floats ?R] obtain sc where
    b: "build_defense_diagnostics exact_floats ?R no_parsers [dated_row (u ''HIGH'')] None (Some 300)
          = Inr \<lparr> gate_details = gate_details_of ?R None (Some 300) t, scores = sc, summary = t \<rparr>"
    by blast
  have g: "gate_flags \<lparr> gate_details = gate_details_of ?R None (Some 300) t, scores = sc,
                        summary = t \<rparr> G1a"
    by (simp add: gate_flags_def gate_details_of_def)
  have "u ''A'' \<noteq> u ''E''" by (simp add: u_def)
  with b g show ?thesis
    by (simp add: engine_level_def risk_engine_def risk_level_from_case_def Let_def
          hard_fail_level_def cfg_get_def empty_rules_def)
qed

text \<open>
  Nor does the engine return on every table: a counted row with a date in one explicit
  endpoint and \<open>NaT\<close> in the other ends the call with \<open>TypeError\<close>, whatever the period.
\<close>

lemma risk_engine_raises_on_nat:
  "risk_engine F R P [blank_row\<lparr>evidence_id := u ''E1'', c_start := Some (Day 5),
                                 c_end := Some NaT\<rparr>] period_start period_end
     = Inl TypeError"
  by (simp add: risk_engine_def build_defense_diagnostics_def diag_loop_def analyse_row_def
      infer_time_anchor_row_def anchor_of_def min_d_def blank_row_def Let_def u_def)

text \<open>
  C1 (as amended). For every evidence table and every resolved period: the diagnostics are
  returned if no date cell of the table is \<open>NaT\<close>; and whenever they are returned, G1b is
  true if and only if no counted in-scope row with a VALID date field and HIGH or MEDIUM
  confidence has an anchor overlapping the period, and moreover either no counted in-scope
  row with a VALID date field overlaps the period at all, or some counted row that is not
  both in scope and date-valid overlaps it.
\<close>

theorem g1b_iff:
  "(list_all nat_free df_def \<longrightarrow>
      (\<exists>d. build_defense_diagnostics F R P df_def (Some s) (Some e) = Inr d))
   \<and> (\<forall>d. build_defense_diagnostics F R P df_def (Some s) (Some e) = Inr d \<longrightarrow>
         (gate_flags d G1b \<longleftrightarrow>
            \<not> (\<exists>r \<in> set df_def. row_covers P (Some s) (Some e) r
                                  \<and> row_highmed P (Some s) (Some e) r)
            \<and> (\<not> (\<exists>r \<in> set df_def. row_covers P (Some s) (Some e) r)
               \<or> (\<exists>r \<in> set df_def. row_reference P (Some s) (Some e) r))))"
proof (intro conjI allI impI)
  assume "list_all nat_free df_def"
  then show "\<exists>d. build_defense_diagnostics F R P df_def (Some s) (Some e) = Inr d"
    by (rule build_nat_free)
next
  fix d
  assume "build_defense_diagnostics F R P df_def (Some s) (Some e) = Inr d"
  from build_Inr_loop [OF this] obtain t where
    t: "diag_loop P (Some s) (Some e) df_def = Inr t"
       "gate_details d = gate_details_of R (Some s) (Some e) t" by blast
  from g1b_of_loop [OF t(1), of R] t(2)
  show "gate_flags d G1b \<longleftrightarrow>
          \<not> (\<exists>r \<in> set df_def. row_covers P (Some s) (Some e) r
                                \<and> row_highmed P (Some s) (Some e) r)
          \<and> (\<not> (\<exists>r \<in> set df_def. row_covers P (Some s) (Some e) r)
             \<or> (\<exists>r \<in> set df_def. row_reference P (Some s) (Some e) r))"
    by (simp add: gate_flags_def)
qed

theorem g1b_iff_witness:
  "\<exists>d. build_defense_diagnostics exact_floats empty_rules no_parsers [dated_row (u ''HIGH'')]
          (Some 100) (Some 300) = Inr d
        \<and> \<not> gate_flags d G1b"
proof -
  have c: "u ''HIGH'' \<in> set [u ''HIGH'', u ''MEDIUM'', u ''LOW'']" by simp
  from dated_row_facts [OF c dated_row_date_valid(1)] obtain f where
    f: "analyse_row no_parsers (Some 100) (Some 300) (dated_row (u ''HIGH'')) = Inr f"
       "f_allowed f" "f_date_valid f" "f_in_period f"
       "anchor_start (f_ti f) \<noteq> None" "anchor_end (f_ti f) \<noteq> None"
       "ti_confidence (f_ti f) = u ''HIGH''"
    by auto
  have cov: "row_covers no_parsers (Some 100) (Some 300) (dated_row (u ''HIGH''))"
            "row_highmed no_parsers (Some 100) (Some 300) (dated_row (u ''HIGH''))"
    using f dated_row_id [of "u ''HIGH''"]
    by (simp_all add: row_covers_def row_highmed_def fact_known_def fact_highmed_def)
  show ?thesis
    using g1b_iff [of "[dated_row (u ''HIGH'')]" exact_floats empty_rules no_parsers 100 300]
          dated_row_nat_free [of "u ''HIGH''"] cov
    by auto
qed

text \<open>
  The claim as written fails on a single in-scope row whose explicit date lies in the period
  with confidence LOW: its date field is INVALID, so it is tallied as unknown time rather
  than as in-period coverage, and G1b is raised although an in-scope LOW-confidence anchor
  lies in the period.
\<close>

theorem g1b_counterexample:
  "spec_g1b no_parsers [dated_row (u ''LOW'')] (Some 100) (Some 300) = False
   \<and> result_gate G1b (build_defense_diagnostics exact_floats empty_rules no_parsers
        [dated_row (u ''LOW'')] (Some 100) (Some 300)) = True"
proof -
  have c: "u ''LOW'' \<in> set [u ''HIGH'', u ''MEDIUM'', u ''LOW'']" by simp
  from dated_row_facts [OF c dated_row_date_valid(2)] obtain f where
    f: "analyse_row no_parsers (Some 100) (Some 300) (dated_row (u ''LOW'')) = Inr f"
       "f_allowed f" "\<not> f_date_valid f" "f_in_period f"
       "ti_confidence (f_ti f) = u ''LOW''"
    by auto
  have 1: "spec_g1b no_parsers [dated_row (u ''LOW'')] (Some 100) (Some 300) = False"
    using f dated_row_id [of "u ''LOW''"] by (simp add: spec_g1b_def)
  have n: "list_all nat_free [dated_row (u ''LOW'')]"
    by (simp add: dated_row_nat_free)
  from build_nat_free [OF n, of exact_floats empty_rules no_parsers "Some 100" "Some 300"]
  obtain d where
    d: "build_defense_diagnostics exact_floats empty_rules no_parsers [dated_row (u ''LOW'')]
          (Some 100) (Some 300) = Inr d" by blast
  from build_Inr_loop [OF d] obtain t where
    t: "diag_loop no_parsers (Some 100) (Some 300) [dated_row (u ''LOW'')] = Inr t"
       "gate_details d = gate_details_of empty_rules (Some 100) (Some 300) t" by blast
  have "gate_details_of empty_rules (Some 100) (Some 300) t G1b \<noteq> []"
    using f dated_row_id [of "u ''LOW''"]
    by (simp add: g1b_of_loop [OF t(1)] row_covers_def row_reference_def fact_known_def)
  with t(2) have 2: "gate_flags d G1b" by (simp add: gate_flags_def)
  from 1 2 d show ?thesis by (simp add: result_gate_def)
qed

subsection \<open>The dedup signature\<close>

lemma normalize_for_dedup_filter:
  "normalize_for_dedup text = filter (\<lambda>c. dedup_keep c \<and> c \<noteq> 20008) text"
  by (auto simp: normalize_for_dedup_def normalize_text_def dedup_keep_def is_space_def
      intro!: filter_cong)

text \<open>
  C7. The signature is the hash of the fallback tuple (name stem, page count, length of the
  normalized text, date fingerprint, joined by \<open>|\<close>) exactly when the normalized text has
  fewer than 80 characters, and otherwise the hash of the normalized text cut to 20000
  characters, a \<open>|\<close>, and the date fingerprint; the fingerprint holds at most three dates,
  and the normalized text is the input with every character outside the letters, digits and
  CJK range, and every U+4E28, removed.
\<close>

theorem dedup_signature_cases:
  "dedup_signature E stem pc text =
     sha1_hex E
       (if length (normalize_for_dedup text) < 80
        then join_bar [stem, str_of_nat pc, str_of_nat (length (normalize_for_dedup text)),
                       join_bar (map (isoformat E) (take 3 (extract_dates_advanced E text)))]
        else take 20000 (normalize_for_dedup text) @ [124]
             @ join_bar (map (isoformat E) (take 3 (extract_dates_advanced E text))))
   \<and> length (take 3 (extract_dates_advanced E text)) \<le> 3
   \<and> length (take 20000 (normalize_for_dedup text)) \<le> 20000
   \<and> normalize_for_dedup text = filter (\<lambda>c. dedup_keep c \<and> c \<noteq> 20008) text"
  using normalize_for_dedup_filter [of "text"]
  by (simp add: dedup_signature_def dedup_raw_def time_fp_def Let_def)

theorem dedup_signature_cases_witness:
  "dedup_signature sample_dedup_env (u ''a'') 2 (u ''ab c'') = u ''a|2|3|1|2|3''
   \<and> dedup_signature sample_dedup_env (u ''a'') 2 (replicate 80 97)
       = replicate 80 97 @ u ''|1|2|3''"
  using dedup_signature_cases [of sample_dedup_env "u ''a''" 2 "u ''ab c''"]
        dedup_signature_cases [of sample_dedup_env "u ''a''" 2 "replicate 80 97"]
  by (simp add: sample_dedup_env_def u_def dedup_keep_def)

subsection \<open>The noise normalizer\<close>













lemma first_some_desc:
  "lo \<le> n \<Longrightarrow> first_some (map (\<lambda>k. Some (g k)) (rev [lo ..< Suc n])) = Some (g n)"
  by simp



















subsection \<open>The scan controller\<close>


lemma requests_refine [simp]:
  "requests (st_scan (refine_stage E A m g st)) = requests st"
  by (simp add: refine_stage_def Let_def)



lemma round_paths_append [simp]: "round_paths n (xs @ ys) = round_paths n xs @ round_paths n ys"
  by (simp add: round_paths_def)

lemma round_paths_map [simp]:
  "round_paths n (map (\<lambda>p. (m, p, pf p, df p)) ts) = (if n = m then ts else [])"
  by (induction ts) (auto simp: round_paths_def)



lemma triggered_detail [simp]: "triggered (e\<lparr>round_detail := trigger_detail b m r\<rparr>) = b"
  by (simp add: triggered_def trigger_detail_def)







end
